theory Spec2Isabelle
  imports Complex_Main "HOL-Library.Monad_Syntax"
begin

section \<open>JavaScript numbers\<close>

text \<open>
  Every quantity of the program is a JavaScript \<^verbatim>\<open>number\<close>. The model keeps the three
  special values of that type and the rules of arithmetic on them (a division by zero
  gives an infinity or NaN, every comparison with NaN is false), and takes the finite values
  to be the real numbers: rounding and overflow are left out, and zero has no sign (it acts
  as \<^verbatim>\<open>+0\<close>). A quotient of reals can therefore differ from the quotient the program
  computes: two divisors next to each other give two different real quotients where they
  may give the same double, and a division by \<^verbatim>\<open>-0\<close> has here the sign of a division by
  \<^verbatim>\<open>+0\<close>. The count of the iterations of a loop whose bound is a multiple of its step
  can differ by one for the same reason. How the wavelength depends on the frequency is a
  question of rounding, and for it the acoustic model is given a second time below, with
  every operation rounded to double precision.
\<close>

datatype jsnum = Fin real | PInf | NInf | NaN

fun js_neg :: "jsnum \<Rightarrow> jsnum" where
  "js_neg (Fin a) = Fin (- a)"
| "js_neg PInf = NInf"
| "js_neg NInf = PInf"
| "js_neg NaN = NaN"

fun js_add :: "jsnum \<Rightarrow> jsnum \<Rightarrow> jsnum" where
  "js_add (Fin a) (Fin b) = Fin (a + b)"
| "js_add (Fin a) PInf = PInf"
| "js_add (Fin a) NInf = NInf"
| "js_add PInf (Fin b) = PInf"
| "js_add PInf PInf = PInf"
| "js_add PInf NInf = NaN"
| "js_add NInf (Fin b) = NInf"
| "js_add NInf PInf = NaN"
| "js_add NInf NInf = NInf"
| "js_add NaN y = NaN"
| "js_add x NaN = NaN"

definition js_sub :: "jsnum \<Rightarrow> jsnum \<Rightarrow> jsnum" where
  "js_sub x y = js_add x (js_neg y)"

fun js_mul :: "jsnum \<Rightarrow> jsnum \<Rightarrow> jsnum" where
  "js_mul (Fin a) (Fin b) = Fin (a * b)"
| "js_mul (Fin a) PInf = (if a = 0 then NaN else if 0 < a then PInf else NInf)"
| "js_mul (Fin a) NInf = (if a = 0 then NaN else if 0 < a then NInf else PInf)"
| "js_mul PInf (Fin b) = (if b = 0 then NaN else if 0 < b then PInf else NInf)"
| "js_mul NInf (Fin b) = (if b = 0 then NaN else if 0 < b then NInf else PInf)"
| "js_mul PInf PInf = PInf"
| "js_mul PInf NInf = NInf"
| "js_mul NInf PInf = NInf"
| "js_mul NInf NInf = PInf"
| "js_mul NaN y = NaN"
| "js_mul x NaN = NaN"

fun js_div :: "jsnum \<Rightarrow> jsnum \<Rightarrow> jsnum" where
  "js_div (Fin a) (Fin b) =
     (if b = 0 then (if a = 0 then NaN else if 0 < a then PInf else NInf)
      else Fin (a / b))"
| "js_div (Fin a) PInf = Fin 0"
| "js_div (Fin a) NInf = Fin 0"
| "js_div PInf (Fin b) = (if b < 0 then NInf else PInf)"
| "js_div NInf (Fin b) = (if b < 0 then PInf else NInf)"
| "js_div PInf PInf = NaN"
| "js_div PInf NInf = NaN"
| "js_div NInf PInf = NaN"
| "js_div NInf NInf = NaN"
| "js_div NaN y = NaN"
| "js_div x NaN = NaN"

text \<open>The remainder \<^verbatim>\<open>a % b\<close> truncates the quotient, so it has the sign of \<open>a\<close>.\<close>

definition fmod :: "real \<Rightarrow> real \<Rightarrow> real" where
  "fmod a b = sgn a * (\<bar>a\<bar> - \<bar>b\<bar> * of_int \<lfloor>\<bar>a\<bar> / \<bar>b\<bar>\<rfloor>)"

fun js_mod :: "jsnum \<Rightarrow> jsnum \<Rightarrow> jsnum" where
  "js_mod (Fin a) (Fin b) = (if b = 0 then NaN else Fin (fmod a b))"
| "js_mod (Fin a) PInf = Fin a"
| "js_mod (Fin a) NInf = Fin a"
| "js_mod PInf y = NaN"
| "js_mod NInf y = NaN"
| "js_mod NaN y = NaN"
| "js_mod (Fin a) NaN = NaN"

fun js_lt :: "jsnum \<Rightarrow> jsnum \<Rightarrow> bool" where
  "js_lt (Fin a) (Fin b) = (a < b)"
| "js_lt (Fin a) PInf = True"
| "js_lt NInf (Fin b) = True"
| "js_lt NInf PInf = True"
| "js_lt (Fin a) NInf = False"
| "js_lt PInf y = False"
| "js_lt NInf NInf = False"
| "js_lt NaN y = False"
| "js_lt (Fin a) NaN = False"
| "js_lt NInf NaN = False"

definition js_gt :: "jsnum \<Rightarrow> jsnum \<Rightarrow> bool" where
  "js_gt x y = js_lt y x"

text \<open>\<^verbatim>\<open>Math.min\<close> and \<^verbatim>\<open>Math.max\<close> of two arguments: NaN if either argument is NaN.\<close>

definition Math_min :: "jsnum \<Rightarrow> jsnum \<Rightarrow> jsnum" where
  "Math_min x y = (if x = NaN \<or> y = NaN then NaN else if js_lt y x then y else x)"

definition Math_max :: "jsnum \<Rightarrow> jsnum \<Rightarrow> jsnum" where
  "Math_max x y = (if x = NaN \<or> y = NaN then NaN else if js_lt x y then y else x)"

text \<open>\<^verbatim>\<open>Math.hypot\<close>: an infinite argument wins over NaN.\<close>

fun Math_hypot :: "jsnum \<Rightarrow> jsnum \<Rightarrow> jsnum" where
  "Math_hypot (Fin a) (Fin b) = Fin (sqrt (a * a + b * b))"
| "Math_hypot PInf y = PInf"
| "Math_hypot NInf y = PInf"
| "Math_hypot x PInf = PInf"
| "Math_hypot x NInf = PInf"
| "Math_hypot NaN (Fin b) = NaN"
| "Math_hypot (Fin a) NaN = NaN"
| "Math_hypot NaN NaN = NaN"

definition isFinite :: "jsnum \<Rightarrow> bool" where
  "isFinite x = (case x of Fin a \<Rightarrow> True | PInf \<Rightarrow> False | NInf \<Rightarrow> False | NaN \<Rightarrow> False)"

section \<open>The acoustic model (utils/physics.ts)\<close>

record SimulationParams =
  frequency :: jsnum
  obstacleSize :: jsnum
  temperature :: jsnum

datatype behavior = REFLECTING | DIFFRACTING | TRANSITIONAL

record AcousticMetrics =
  wavelength :: jsnum
  speedOfSound :: jsnum
  ratio :: jsnum
  behavior :: behavior

definition calculateSpeedOfSound :: "jsnum \<Rightarrow> jsnum" where
  "calculateSpeedOfSound tempCelsius = js_add (Fin 331.4) (js_mul (Fin 0.6) tempCelsius)"

text \<open>
  \<^verbatim>\<open>behavior\<close> starts as TRANSITIONAL and is overwritten by the first test that holds,
  as in the source.
\<close>

definition calculateMetrics :: "SimulationParams \<Rightarrow> AcousticMetrics" where
  "calculateMetrics params =
     (let speed = calculateSpeedOfSound (temperature params);
          wavelength = js_div speed (frequency params);
          ratio = js_div (obstacleSize params) wavelength;
          behavior0 = TRANSITIONAL;
          behavior1 = (if js_gt ratio (Fin 1.0) then REFLECTING
                       else if js_lt ratio (Fin 0.5) then DIFFRACTING
                       else behavior0)
      in \<lparr> wavelength = wavelength, speedOfSound = speed, ratio = ratio,
           behavior = behavior1 \<rparr>)"

subsection \<open>The call\<close>

text \<open>
  The body of \<^verbatim>\<open>calculateMetrics\<close> adds, multiplies, divides and compares numbers, and
  none of these operations throws in JavaScript. The one step that can throw is the read of
  a property of the argument, which raises a \<^verbatim>\<open>TypeError\<close> when the argument is
  \<^verbatim>\<open>undefined\<close> or \<^verbatim>\<open>null\<close>; the type \<^verbatim>\<open>SimulationParams\<close> rules that argument out
  for a caller that is type-checked. A call returns the exception or the record.
\<close>

datatype js_error = TypeError

datatype js_arg = Undefined | Null | Object SimulationParams

definition calculateMetrics_call :: "js_arg \<Rightarrow> js_error + AcousticMetrics" where
  "calculateMetrics_call a =
     (case a of
        Undefined \<Rightarrow> Inl TypeError
      | Null \<Rightarrow> Inl TypeError
      | Object params \<Rightarrow> Inr (calculateMetrics params))"

subsection \<open>Double precision\<close>

text \<open>
  The functions above compute on real numbers, so two frequencies that differ give two
  wavelengths that differ. The program computes on IEEE 754 doubles, where every
  operation returns the double nearest to the real result (ties go to the even
  significand), a result of magnitude \<open>2 ^ 1024\<close> or more after rounding is an infinity, and
  numbers below \<open>1 / 2 ^ 1022\<close> are spaced \<open>1 / 2 ^ 1074\<close> apart. The acoustic model is given here a
  second time with each literal and each operation rounded in that way; the statement on
  how the wavelength depends on the frequency is made of these functions. The sign of a
  zero is still not kept: a result that rounds to zero is \<^verbatim>\<open>+0\<close>. With a positive speed
  and a positive frequency no negative zero arises in the wavelength.

  \<open>binade x\<close> is the exponent of the double format at \<open>x\<close>, \<open>ulp x\<close> the spacing of the
  doubles there, and \<open>nearest x\<close> the multiple of that spacing nearest to \<open>x\<close>.
\<close>

definition round_even :: "real \<Rightarrow> int" where
  "round_even q =
     (let n = \<lfloor>q\<rfloor>; r = q - of_int n
      in if r < 1 / 2 then n else if 1 / 2 < r then n + 1 else if even n then n else n + 1)"

definition binade :: "real \<Rightarrow> int" where
  "binade x = max \<lfloor>log 2 \<bar>x\<bar>\<rfloor> (- 1022)"

definition ulp :: "real \<Rightarrow> real" where
  "ulp x = 2 powr of_int (binade x - 52)"

definition nearest :: "real \<Rightarrow> real" where
  "nearest x = of_int (round_even (x / ulp x)) * ulp x"

definition round_double :: "real \<Rightarrow> jsnum" where
  "round_double x =
     (if x = 0 then Fin 0
      else (let y = of_int (round_even (x / ulp x)) * ulp x
            in if 2 powr 1024 \<le> \<bar>y\<bar> then (if 0 < x then PInf else NInf) else Fin y))"

fun rnd :: "jsnum \<Rightarrow> jsnum" where
  "rnd (Fin x) = round_double x"
| "rnd PInf = PInf"
| "rnd NInf = NInf"
| "rnd NaN = NaN"

definition d_add :: "jsnum \<Rightarrow> jsnum \<Rightarrow> jsnum" where
  "d_add x y = rnd (js_add x y)"

definition d_mul :: "jsnum \<Rightarrow> jsnum \<Rightarrow> jsnum" where
  "d_mul x y = rnd (js_mul x y)"

definition d_div :: "jsnum \<Rightarrow> jsnum \<Rightarrow> jsnum" where
  "d_div x y = rnd (js_div x y)"

definition calculateSpeedOfSound_d :: "jsnum \<Rightarrow> jsnum" where
  "calculateSpeedOfSound_d tempCelsius =
     d_add (rnd (Fin 331.4)) (d_mul (rnd (Fin 0.6)) tempCelsius)"

definition calculateMetrics_d :: "SimulationParams \<Rightarrow> AcousticMetrics" where
  "calculateMetrics_d params =
     (let speed = calculateSpeedOfSound_d (temperature params);
          wavelength = d_div speed (frequency params);
          ratio = d_div (obstacleSize params) wavelength;
          behavior0 = TRANSITIONAL;
          behavior1 = (if js_gt ratio (rnd (Fin 1.0)) then REFLECTING
                       else if js_lt ratio (rnd (Fin 0.5)) then DIFFRACTING
                       else behavior0)
      in \<lparr> wavelength = wavelength, speedOfSound = speed, ratio = ratio,
           behavior = behavior1 \<rparr>)"

section \<open>The drawing surface\<close>

text \<open>
  A frame is the sequence of calls and property assignments the renderer makes on the 2D
  context, in order. A colour is a literal or the template
  \<^verbatim>\<open>rgba(r, g, b, ${alpha})\<close> with the number it interpolates.
\<close>

datatype style = Hex string | Rgba nat nat nat jsnum

datatype cmd =
    FillStyle style
  | StrokeStyle style
  | LineWidth jsnum
  | ShadowColor style
  | ShadowBlur jsnum
  | Font string
  | FillRect jsnum jsnum jsnum jsnum
  | BeginPath
  | MoveTo jsnum jsnum
  | LineTo jsnum jsnum
  | ClosePath
  | Stroke
  | Fill
  | Arc jsnum jsnum jsnum jsnum jsnum
  | Save
  | Restore
  | FillText string jsnum jsnum

text \<open>
  \<^verbatim>\<open>for (let v = init; v < bound; v += step) { body(v) }\<close>, where the body only
  draws. The loop need not end (a step of zero, or a negative one): then the result is
  \<open>None\<close>.
\<close>

partial_function (option) for_loop ::
  "jsnum \<Rightarrow> jsnum \<Rightarrow> jsnum \<Rightarrow> (jsnum \<Rightarrow> cmd list) \<Rightarrow> cmd list option" where
  "for_loop v bound step body =
     (if js_lt v bound
      then Option.bind (for_loop (js_add v step) bound step body)
             (\<lambda>rest. Some (body v @ rest))
      else Some [])"

section \<open>The renderer (components/WaveCanvas.tsx)\<close>

record WaveCanvasProps =
  frequency_prop :: jsnum
  obstacleSize_prop :: jsnum
  metrics :: AcousticMetrics

text \<open>The constants that \<^verbatim>\<open>render\<close> computes before it draws.\<close>

record view =
  width :: jsnum
  height :: jsnum
  PIXELS_PER_METER :: jsnum
  centerX :: jsnum
  centerY :: jsnum
  sourceX :: jsnum
  obstacleX :: jsnum
  wavelengthPx :: jsnum
  obstacleHeightPx :: jsnum
  obstacleWidthPx :: jsnum
  maxRadius :: jsnum
  phaseOffset :: jsnum
  obsTop :: jsnum
  obsBottom :: jsnum

definition diffractionFactor :: "jsnum \<Rightarrow> jsnum" where
  "diffractionFactor r = Math_max (Fin 0) (Math_min (Fin 1) (js_sub (Fin 1.5) r))"

definition reflectionOpacity :: "jsnum \<Rightarrow> jsnum" where
  "reflectionOpacity r = Math_min (Fin 1) (js_sub r (Fin 0.6))"

text \<open>
  \<open>w\<close> and \<open>h\<close> are \<^verbatim>\<open>container.clientWidth\<close> and \<^verbatim>\<open>container.clientHeight\<close>, which
  are integers and never negative; \<open>t\<close> is the tick counter \<^verbatim>\<open>time\<close>.
\<close>

definition make_view :: "WaveCanvasProps \<Rightarrow> nat \<Rightarrow> nat \<Rightarrow> nat \<Rightarrow> view" where
  "make_view props t w h =
     (let width = Fin (real w);
          height = Fin (real h);
          PIXELS_PER_METER = Math_min (Fin 60) (js_div height (Fin 6));
          centerX = js_div width (Fin 2);
          centerY = js_div height (Fin 2);
          sourceX = js_mul width (Fin 0.15);
          obstacleX = centerX;
          wavelengthPx = js_mul (wavelength (metrics props)) PIXELS_PER_METER;
          obstacleHeightPx = js_mul (obstacleSize_prop props) PIXELS_PER_METER;
          obstacleWidthPx = Fin 15;
          maxRadius = Math_hypot width height;
          waveSpeedPx = Fin 2;
          phaseOffset = js_mod (js_mul (Fin (real t)) waveSpeedPx) wavelengthPx;
          obsTop = js_sub centerY (js_div obstacleHeightPx (Fin 2));
          obsBottom = js_add centerY (js_div obstacleHeightPx (Fin 2))
      in \<lparr> width = width, height = height, PIXELS_PER_METER = PIXELS_PER_METER,
           centerX = centerX, centerY = centerY, sourceX = sourceX, obstacleX = obstacleX,
           wavelengthPx = wavelengthPx, obstacleHeightPx = obstacleHeightPx,
           obstacleWidthPx = obstacleWidthPx, maxRadius = maxRadius,
           phaseOffset = phaseOffset, obsTop = obsTop, obsBottom = obsBottom \<rparr>)"

definition drawClear :: "view \<Rightarrow> cmd list" where
  "drawClear v = [FillStyle (Hex ''#09090b''), FillRect (Fin 0) (Fin 0) (width v) (height v)]"

definition drawGrid :: "view \<Rightarrow> cmd list option" where
  "drawGrid v = do {
     xs \<leftarrow> for_loop (Fin 0) (width v) (PIXELS_PER_METER v)
             (\<lambda>x. [MoveTo x (Fin 0), LineTo x (height v)]);
     ys \<leftarrow> for_loop (Fin 0) (height v) (PIXELS_PER_METER v)
             (\<lambda>y. [MoveTo (Fin 0) y, LineTo (width v) y]);
     Some ([StrokeStyle (Hex ''#18181b''), LineWidth (Fin 1), BeginPath] @ xs @ ys @ [Stroke])
   }"

definition incidentWave :: "view \<Rightarrow> jsnum \<Rightarrow> cmd list" where
  "incidentWave v r =
     (let intensity = Math_max (Fin 0)
            (js_sub (Fin 1) (js_div r (js_mul (maxRadius v) (Fin 0.8))))
      in [StrokeStyle (Rgba 56 189 248 intensity),
          BeginPath,
          Arc (sourceX v) (centerY v) r (Fin 0) (Fin (pi * 2)),
          Stroke])"

definition drawIncidentWaves :: "view \<Rightarrow> cmd list option" where
  "drawIncidentWaves v = for_loop (phaseOffset v) (maxRadius v) (wavelengthPx v) (incidentWave v)"

definition drawShadowZone :: "WaveCanvasProps \<Rightarrow> view \<Rightarrow> cmd list" where
  "drawShadowZone props v =
     [FillStyle (Rgba 9 9 11 (js_sub (Fin 1) (diffractionFactor (ratio (metrics props))))),
      BeginPath,
      MoveTo (obstacleX v) (obsTop v),
      LineTo (width v) (js_sub (obsTop v) (js_mul (js_sub (width v) (obstacleX v)) (Fin 0.3))),
      LineTo (width v) (js_add (obsBottom v) (js_mul (js_sub (width v) (obstacleX v)) (Fin 0.3))),
      LineTo (obstacleX v) (obsBottom v),
      ClosePath,
      Fill]"

definition reflectedWave :: "WaveCanvasProps \<Rightarrow> view \<Rightarrow> jsnum \<Rightarrow> cmd list" where
  "reflectedWave props v r =
     (let distToObs = js_sub (obstacleX v) (sourceX v)
      in if js_gt r distToObs
         then (let reflectedRadius = js_sub r distToObs
               in if js_gt reflectedRadius (Fin 0)
                  then (let intensity = Math_max (Fin 0)
                              (js_mul (js_mul
                                 (js_sub (Fin 1) (js_div reflectedRadius (js_mul (width v) (Fin 0.5))))
                                 (reflectionOpacity (ratio (metrics props))))
                                 (Fin 0.6))
                        in [StrokeStyle (Rgba 248 113 113 intensity),
                            BeginPath,
                            Arc (obstacleX v) (centerY v) reflectedRadius
                                (Fin (pi * 0.5)) (Fin (pi * 1.5)),
                            Stroke])
                  else [])
         else [])"

definition drawReflectedWaves :: "WaveCanvasProps \<Rightarrow> view \<Rightarrow> cmd list option" where
  "drawReflectedWaves props v =
     (if js_gt (ratio (metrics props)) (Fin 0.8)
      then for_loop (phaseOffset v) (maxRadius v) (wavelengthPx v) (reflectedWave props v)
      else Some [])"

definition obstacleColor :: "behavior \<Rightarrow> style" where
  "obstacleColor b =
     (if b = REFLECTING then Hex ''#f87171''
      else if b = TRANSITIONAL then Hex ''#fbbf24''
      else Hex ''#4ade80'')"

definition drawObstacle :: "WaveCanvasProps \<Rightarrow> view \<Rightarrow> cmd list" where
  "drawObstacle props v =
     [FillStyle (obstacleColor (behavior (metrics props))),
      ShadowColor (obstacleColor (behavior (metrics props))),
      ShadowBlur (Fin 15),
      FillRect (obstacleX v) (obsTop v) (obstacleWidthPx v) (obstacleHeightPx v),
      ShadowBlur (Fin 0)]"

definition drawSource :: "view \<Rightarrow> cmd list" where
  "drawSource v =
     [FillStyle (Hex ''#38bdf8''),
      BeginPath,
      Arc (sourceX v) (centerY v) (Fin 5) (Fin 0) (Fin (pi * 2)),
      Fill]"

definition drawLabels :: "view \<Rightarrow> cmd list" where
  "drawLabels v =
     [FillStyle (Hex ''#a1a1aa''),
      Font ''10px sans-serif'',
      FillText ''Schallquelle'' (js_sub (sourceX v) (Fin 25)) (js_sub (centerY v) (Fin 12)),
      FillText ''Hindernis'' (js_sub (obstacleX v) (Fin 20)) (js_sub (obsTop v) (Fin 8))]"

text \<open>
  The drawing part of one call of \<^verbatim>\<open>render\<close>, from the clearing of the surface to
  \<^verbatim>\<open>ctx.restore()\<close>: \<open>None\<close> when one of its loops does not end.
\<close>

definition draw_frame :: "WaveCanvasProps \<Rightarrow> nat \<Rightarrow> nat \<Rightarrow> nat \<Rightarrow> cmd list option" where
  "draw_frame props t w h =
     (let v = make_view props t w h in do {
        grid \<leftarrow> drawGrid v;
        incident \<leftarrow> drawIncidentWaves v;
        reflected \<leftarrow> drawReflectedWaves props v;
        Some (drawClear v @ grid @ [LineWidth (Fin 2), Save] @ incident
              @ drawShadowZone props v @ reflected @ drawObstacle props v
              @ drawSource v @ drawLabels v @ [Restore])
      })"

section \<open>The animation loop\<close>

text \<open>
  One run of the effect of \<^verbatim>\<open>WaveCanvas\<close> makes a closure: the handles it read from
  the refs, the props of the rendering it belongs to, and its two variables \<^verbatim>\<open>time\<close>
  and \<^verbatim>\<open>animationFrameId\<close> (undefined until the first request). The counter is a
  natural number: as a JavaScript number it is exact for the first \<open>2^53\<close> frames.
\<close>

record effect_run =
  canvas :: bool
  container :: bool
  ctx :: bool
  props :: WaveCanvasProps
  time :: nat
  animationFrameId :: "nat option"

text \<open>
  The page: whether the refs and the 2D context are there, the size of the container and of
  the canvas, the closures made so far, the run whose cleanup React holds, the callbacks
  the browser holds for the next animation frame (handle and run), the next handle, and
  the frames drawn so far.
\<close>

record world =
  mounted :: bool
  canvasRef :: bool
  containerRef :: bool
  context2d :: bool
  clientWidth :: nat
  clientHeight :: nat
  canvas_width :: nat
  canvas_height :: nat
  runs :: "effect_run list"
  cleanup :: "nat option"
  raf_queue :: "(nat \<times> nat) list"
  raf_next :: nat
  frames :: "cmd list list"

definition requestAnimationFrame :: "nat \<Rightarrow> world \<Rightarrow> nat \<times> world" where
  "requestAnimationFrame k w =
     (raf_next w, w\<lparr> raf_queue := raf_queue w @ [(raf_next w, k)], raf_next := raf_next w + 1 \<rparr>)"

definition cancelAnimationFrame :: "nat option \<Rightarrow> world \<Rightarrow> world" where
  "cancelAnimationFrame i w =
     (case i of
        None \<Rightarrow> w
      | Some a \<Rightarrow> w\<lparr> raf_queue := filter (\<lambda>e. fst e \<noteq> a) (raf_queue w) \<rparr>)"

text \<open>
  \<^verbatim>\<open>render\<close> of run \<open>k\<close>: the guard, the resize, the drawing, \<^verbatim>\<open>time++\<close> and the
  request for the next frame. \<open>None\<close> when the drawing does not return. A run is only
  ever called after it has been made, so \<open>k\<close> is below the number of runs.
\<close>

definition render :: "nat \<Rightarrow> world \<Rightarrow> world option" where
  "render k w =
     (let r = runs w ! k in
      if \<not> canvas r \<or> \<not> container r \<or> \<not> ctx r then Some w
      else
        (let w1 = (if canvas_width w \<noteq> clientWidth w \<or> canvas_height w \<noteq> clientHeight w
                   then w\<lparr> canvas_width := clientWidth w, canvas_height := clientHeight w \<rparr>
                   else w)
         in case draw_frame (props r) (time r) (clientWidth w) (clientHeight w) of
              None \<Rightarrow> None
            | Some cmds \<Rightarrow>
                (let w2 = w1\<lparr> frames := frames w1 @ [cmds] \<rparr>;
                     (i, w3) = requestAnimationFrame k w2
                 in Some (w3\<lparr> runs := (runs w3)
                            [k := r\<lparr> time := time r + 1, animationFrameId := Some i \<rparr>] \<rparr>))))"

text \<open>
  The body of the effect for the props \<open>p\<close>: it returns at once when a ref or the context is
  missing (then there is no cleanup), and otherwise calls \<^verbatim>\<open>render\<close> once and returns
  the cleanup.
\<close>

definition useEffect_body :: "WaveCanvasProps \<Rightarrow> world \<Rightarrow> world option" where
  "useEffect_body p w =
     (if \<not> canvasRef w \<or> \<not> containerRef w then Some (w\<lparr> cleanup := None \<rparr>)
      else if \<not> context2d w then Some (w\<lparr> cleanup := None \<rparr>)
      else
        (let k = length (runs w);
             w1 = w\<lparr> runs := runs w @
                    [\<lparr> canvas = canvasRef w, container = containerRef w, ctx = context2d w,
                       props = p, time = 0, animationFrameId = None \<rparr>] \<rparr>
         in case render k w1 of
              None \<Rightarrow> None
            | Some w2 \<Rightarrow> Some (w2\<lparr> cleanup := Some k \<rparr>)))"

definition run_cleanup :: "world \<Rightarrow> world" where
  "run_cleanup w =
     (case cleanup w of
        None \<Rightarrow> w
      | Some k \<Rightarrow> (cancelAnimationFrame (animationFrameId (runs w ! k)) w)\<lparr> cleanup := None \<rparr>)"

text \<open>
  What happens to the page. \<open>Mount\<close> is the first rendering of the component and the first
  run of its effect; \<open>DepsChange\<close> is a rendering in which one of the effect's dependencies
  \<^verbatim>\<open>[frequency, obstacleSize, metrics]\<close> has changed (a number that differs, or
  another metrics object), so that React runs the cleanup of the last run, if it returned
  one, and then the effect again; \<open>Unmount\<close> runs the cleanup; \<open>AnimationFrame\<close> is the
  browser calling the callbacks it holds, those requested meanwhile waiting for the next
  frame; \<open>Resize\<close> and \<open>SetRefs\<close> change the surface.
\<close>

datatype event =
    Mount WaveCanvasProps
  | DepsChange WaveCanvasProps
  | Unmount
  | AnimationFrame
  | Resize nat nat
  | SetRefs bool bool bool

fun run_callbacks :: "nat list \<Rightarrow> world \<Rightarrow> world option" where
  "run_callbacks [] w = Some w"
| "run_callbacks (k # ks) w =
     (case render k w of None \<Rightarrow> None | Some w' \<Rightarrow> run_callbacks ks w')"

fun step :: "event \<Rightarrow> world \<Rightarrow> world option" where
  "step (Mount p) w =
     (if mounted w then Some w else useEffect_body p (w\<lparr> mounted := True \<rparr>))"
| "step (DepsChange p) w =
     (if mounted w then useEffect_body p (run_cleanup w) else Some w)"
| "step Unmount w =
     (if mounted w then Some ((run_cleanup w)\<lparr> mounted := False \<rparr>) else Some w)"
| "step AnimationFrame w =
     run_callbacks (map snd (raf_queue w)) (w\<lparr> raf_queue := [] \<rparr>)"
| "step (Resize a b) w = Some (w\<lparr> clientWidth := a, clientHeight := b \<rparr>)"
| "step (SetRefs a b c) w = Some (w\<lparr> canvasRef := a, containerRef := b, context2d := c \<rparr>)"

fun run :: "event list \<Rightarrow> world \<Rightarrow> world option" where
  "run [] w = Some w"
| "run (e # es) w = (case step e w of None \<Rightarrow> None | Some w' \<Rightarrow> run es w')"

text \<open>
  The page before the component is mounted, with a container of the given size. A new canvas
  is 300 by 150, and the first handle the browser gives out is 1.
\<close>

definition initial :: "bool \<Rightarrow> bool \<Rightarrow> bool \<Rightarrow> nat \<Rightarrow> nat \<Rightarrow> world" where
  "initial cv ct cx a b =
     \<lparr> mounted = False, canvasRef = cv, containerRef = ct, context2d = cx,
       clientWidth = a, clientHeight = b, canvas_width = 300, canvas_height = 150,
       runs = [], cleanup = None, raf_queue = [], raf_next = 1, frames = [] \<rparr>"

text \<open>The tick counter of the loop that is running, if one is.\<close>

definition current_time :: "world \<Rightarrow> nat option" where
  "current_time w = (case cleanup w of None \<Rightarrow> None | Some k \<Rightarrow> Some (time (runs w ! k)))"

text \<open>The props that App passes down for its parameters.\<close>

definition app_props :: "SimulationParams \<Rightarrow> WaveCanvasProps" where
  "app_props params =
     \<lparr> frequency_prop = frequency params, obstacleSize_prop = obstacleSize params,
       metrics = calculateMetrics params \<rparr>"

section \<open>Notions used in the statements\<close>

text \<open>
  The specification's \<open>clamp(x, lo, hi)\<close>: the bound that \<open>x\<close> is beyond, and \<open>x\<close> itself
  otherwise.
\<close>

definition clamp :: "jsnum \<Rightarrow> jsnum \<Rightarrow> jsnum \<Rightarrow> jsnum" where
  "clamp x lo hi = (if js_lt x lo then lo else if js_gt x hi then hi else x)"


text \<open>The centre and the radius of an arc are finite numbers.\<close>

fun finite_arc :: "cmd \<Rightarrow> bool" where
  "finite_arc (Arc x y r a0 a1) = (isFinite x \<and> isFinite y \<and> isFinite r)"
| "finite_arc c = True"

text \<open>
  The number of rounds of a loop from \<open>a\<close> up to \<open>b\<close> in steps of \<open>s > 0\<close>.
\<close>

definition iterations :: "real \<Rightarrow> real \<Rightarrow> real \<Rightarrow> nat" where
  "iterations a b s = nat \<lceil>(b - a) / s\<rceil>"

text \<open>
  A condition under which all loops of a frame end: the wavelength is not negative, and the
  surface has a height or no width.
\<close>

definition frame_ends :: "WaveCanvasProps \<Rightarrow> nat \<Rightarrow> nat \<Rightarrow> bool" where
  "frame_ends pr w h = (\<not> js_lt (wavelength (metrics pr)) (Fin 0) \<and> (0 < h \<or> w = 0))"

text \<open>
  The invariant of the page: without a cleanup the browser holds no callback, and with the
  cleanup of run \<open>k\<close> it holds exactly one, of that run and under the handle the run
  remembers.
\<close>

definition wf :: "world \<Rightarrow> bool" where
  "wf w =
     ((mounted w \<or> cleanup w = None) \<and>
      (case cleanup w of
         None \<Rightarrow> raf_queue w = []
       | Some k \<Rightarrow>
           k < length (runs w) \<and> canvas (runs w ! k) \<and> container (runs w ! k)
           \<and> ctx (runs w ! k)
           \<and> (\<exists>i. raf_queue w = [(i, k)] \<and> animationFrameId (runs w ! k) = Some i)))"

text \<open>
  The loop of the props \<open>p\<close> is running and its tick counter is \<open>n\<close>.
\<close>

definition running :: "world \<Rightarrow> WaveCanvasProps \<Rightarrow> nat \<Rightarrow> bool" where
  "running w p n =
     (wf w \<and> mounted w
      \<and> (\<exists>k. cleanup w = Some k \<and> props (runs w ! k) = p \<and> time (runs w ! k) = n))"

definition same_surface :: "world \<Rightarrow> world \<Rightarrow> bool" where
  "same_surface w w' =
     (canvasRef w' = canvasRef w \<and> containerRef w' = containerRef w
      \<and> context2d w' = context2d w
      \<and> clientWidth w' = clientWidth w \<and> clientHeight w' = clientHeight w)"

text \<open>What the browser and the layout do, as opposed to React.\<close>

fun browser_event :: "event \<Rightarrow> bool" where
  "browser_event AnimationFrame = True"
| "browser_event (Resize a b) = True"
| "browser_event (SetRefs a b c) = True"
| "browser_event e = False"

fun is_Mount :: "event \<Rightarrow> bool" where
  "is_Mount (Mount p) = True"
| "is_Mount e = False"

section \<open>Properties of the acoustic model\<close>

lemma calculateMetrics_fields:
  "speedOfSound (calculateMetrics p) = calculateSpeedOfSound (temperature p)"
  "wavelength (calculateMetrics p) = js_div (calculateSpeedOfSound (temperature p)) (frequency p)"
  "ratio (calculateMetrics p) =
     js_div (obstacleSize p) (js_div (calculateSpeedOfSound (temperature p)) (frequency p))"
  "behavior (calculateMetrics p) =
     (if js_gt (ratio (calculateMetrics p)) (Fin 1) then REFLECTING
      else if js_lt (ratio (calculateMetrics p)) (Fin 0.5) then DIFFRACTING
      else TRANSITIONAL)"
  by (simp_all add: calculateMetrics_def Let_def)

lemma js_lt_neg_half: "js_lt r (Fin 0) \<Longrightarrow> js_lt r (Fin 0.5) \<and> \<not> js_gt r (Fin 1)"
  by (cases r) (simp_all add: js_gt_def)

text \<open>
  C1. The class is decided by the tests in their order: REFLECTING if the ratio is above 1,
  otherwise DIFFRACTING if it is below 0.5, otherwise TRANSITIONAL. A ratio of exactly 1 and
  a ratio of exactly 0.5 are TRANSITIONAL, and every negative ratio is DIFFRACTING.
\<close>

theorem C1_classification_order:
  "behavior (calculateMetrics p) =
     (if js_gt (ratio (calculateMetrics p)) (Fin 1.0) then REFLECTING
      else if js_lt (ratio (calculateMetrics p)) (Fin 0.5) then DIFFRACTING
      else TRANSITIONAL)
   \<and> (ratio (calculateMetrics p) = Fin 1.0 \<longrightarrow> behavior (calculateMetrics p) = TRANSITIONAL)
   \<and> (ratio (calculateMetrics p) = Fin 0.5 \<longrightarrow> behavior (calculateMetrics p) = TRANSITIONAL)
   \<and> (js_lt (ratio (calculateMetrics p)) (Fin 0) \<longrightarrow> behavior (calculateMetrics p) = DIFFRACTING)"
proof -
  let ?r = "ratio (calculateMetrics p)"
  have order: "behavior (calculateMetrics p) =
     (if js_gt ?r (Fin 1.0) then REFLECTING
      else if js_lt ?r (Fin 0.5) then DIFFRACTING else TRANSITIONAL)"
    by (simp add: calculateMetrics_fields(4))
  have one: "?r = Fin 1.0 \<longrightarrow> behavior (calculateMetrics p) = TRANSITIONAL"
    by (simp add: calculateMetrics_fields(4) js_gt_def)
  have half: "?r = Fin 0.5 \<longrightarrow> behavior (calculateMetrics p) = TRANSITIONAL"
    by (simp add: calculateMetrics_fields(4) js_gt_def)
  have neg: "js_lt ?r (Fin 0) \<longrightarrow> behavior (calculateMetrics p) = DIFFRACTING"
    using js_lt_neg_half [of ?r] by (simp add: calculateMetrics_fields(4))
  from order one half neg show ?thesis by blast
qed

theorem C1_classification_order_witness:
  "ratio (calculateMetrics \<lparr> frequency = Fin 343.4, obstacleSize = Fin 1, temperature = Fin 20 \<rparr>) = Fin 1.0
   \<and> behavior (calculateMetrics \<lparr> frequency = Fin 343.4, obstacleSize = Fin 1, temperature = Fin 20 \<rparr>) = TRANSITIONAL
   \<and> ratio (calculateMetrics \<lparr> frequency = Fin 343.4, obstacleSize = Fin 0.5, temperature = Fin 20 \<rparr>) = Fin 0.5
   \<and> behavior (calculateMetrics \<lparr> frequency = Fin 343.4, obstacleSize = Fin 0.5, temperature = Fin 20 \<rparr>) = TRANSITIONAL
   \<and> js_lt (ratio (calculateMetrics \<lparr> frequency = Fin 343.4, obstacleSize = Fin (- 2), temperature = Fin 20 \<rparr>)) (Fin 0)
   \<and> behavior (calculateMetrics \<lparr> frequency = Fin 343.4, obstacleSize = Fin (- 2), temperature = Fin 20 \<rparr>) = DIFFRACTING"
proof -
  let ?p1 = "\<lparr> frequency = Fin 343.4, obstacleSize = Fin 1, temperature = Fin 20 \<rparr>"
  let ?p2 = "\<lparr> frequency = Fin 343.4, obstacleSize = Fin 0.5, temperature = Fin 20 \<rparr>"
  let ?p3 = "\<lparr> frequency = Fin 343.4, obstacleSize = Fin (- 2), temperature = Fin 20 \<rparr>"
  have r1: "ratio (calculateMetrics ?p1) = Fin 1.0"
    by (simp add: calculateMetrics_fields(3) calculateSpeedOfSound_def)
  have r2: "ratio (calculateMetrics ?p2) = Fin 0.5"
    by (simp add: calculateMetrics_fields(3) calculateSpeedOfSound_def)
  have r3: "js_lt (ratio (calculateMetrics ?p3)) (Fin 0)"
    by (simp add: calculateMetrics_fields(3) calculateSpeedOfSound_def)
  from r1 r2 r3 C1_classification_order [of ?p1] C1_classification_order [of ?p2]
    C1_classification_order [of ?p3]
  show ?thesis by blast
qed



text \<open>What the function returns outside the documented domain.\<close>

lemma js_div_Fin: "b \<noteq> 0 \<Longrightarrow> js_div (Fin a) (Fin b) = Fin (a / b)"
  by simp

lemma js_lt_zero_not_positive: "js_lt x (Fin 0) \<Longrightarrow> \<not> js_gt x (Fin 0) \<and> x \<noteq> NaN"
  by (cases x) (simp_all add: js_gt_def)

lemma behavior_cases:
  "(behavior (calculateMetrics p) = REFLECTING \<and> js_gt (ratio (calculateMetrics p)) (Fin 1.0))
   \<or> (behavior (calculateMetrics p) = DIFFRACTING
       \<and> \<not> js_gt (ratio (calculateMetrics p)) (Fin 1.0)
       \<and> js_lt (ratio (calculateMetrics p)) (Fin 0.5))
   \<or> (behavior (calculateMetrics p) = TRANSITIONAL
       \<and> \<not> js_gt (ratio (calculateMetrics p)) (Fin 1.0)
       \<and> \<not> js_lt (ratio (calculateMetrics p)) (Fin 0.5))"
  by (simp add: calculateMetrics_fields(4))

lemma zero_frequency:
  assumes "frequency p = Fin 0" and "speedOfSound (calculateMetrics p) = Fin s" and "s \<noteq> 0"
    and "obstacleSize p = Fin z"
  shows "wavelength (calculateMetrics p) \<in> {PInf, NInf}"
    and "ratio (calculateMetrics p) = Fin 0"
    and "behavior (calculateMetrics p) = DIFFRACTING"
  using assms by (auto simp add: calculateMetrics_fields js_gt_def)

lemma zero_frequency_zero_speed:
  assumes "frequency p = Fin 0" and "speedOfSound (calculateMetrics p) = Fin 0"
  shows "wavelength (calculateMetrics p) = NaN"
    and "ratio (calculateMetrics p) = NaN"
    and "behavior (calculateMetrics p) = TRANSITIONAL"
proof -
  from assms show w: "wavelength (calculateMetrics p) = NaN"
    by (simp add: calculateMetrics_fields)
  have "ratio (calculateMetrics p) = js_div (obstacleSize p) (wavelength (calculateMetrics p))"
    by (simp add: calculateMetrics_fields)
  with w show r: "ratio (calculateMetrics p) = NaN"
    by (cases "obstacleSize p") simp_all
  then show "behavior (calculateMetrics p) = TRANSITIONAL"
    by (simp add: calculateMetrics_fields(4) js_gt_def)
qed

lemma negative_frequency:
  assumes "frequency p = Fin f" and "f < 0"
    and "speedOfSound (calculateMetrics p) = Fin s" and "0 < s"
    and "obstacleSize p = Fin z" and "0 < z"
  shows "js_lt (wavelength (calculateMetrics p)) (Fin 0)"
    and "js_lt (ratio (calculateMetrics p)) (Fin 0)"
    and "behavior (calculateMetrics p) = DIFFRACTING"
proof -
  from assms(3) have sp: "calculateSpeedOfSound (temperature p) = Fin s"
    by (simp only: calculateMetrics_fields(1))
  from assms(4,2) have w: "s / f < 0" by (rule divide_pos_neg)
  then have nz: "s / f \<noteq> 0" by linarith
  from assms(6) w have r: "z / (s / f) < 0" by (rule divide_pos_neg)
  from assms(2) have fz: "f \<noteq> 0" by linarith
  have wl: "wavelength (calculateMetrics p) = Fin (s / f)"
    by (simp only: calculateMetrics_fields(2) assms(1) sp js_div_Fin [OF fz])
  have rat: "ratio (calculateMetrics p) = Fin (z / (s / f))"
    by (simp only: calculateMetrics_fields(3) assms(1,5) sp js_div_Fin [OF fz] js_div_Fin [OF nz])
  from wl w show "js_lt (wavelength (calculateMetrics p)) (Fin 0)"
    by (simp only: js_lt.simps)
  from rat r show rl: "js_lt (ratio (calculateMetrics p)) (Fin 0)"
    by (simp only: js_lt.simps)
  from js_lt_neg_half [OF rl] show "behavior (calculateMetrics p) = DIFFRACTING"
    by (simp add: calculateMetrics_fields(4))
qed

lemma nan_frequency:
  assumes "frequency p = NaN"
  shows "wavelength (calculateMetrics p) = NaN" and "ratio (calculateMetrics p) = NaN"
    and "behavior (calculateMetrics p) = TRANSITIONAL"
proof -
  show w: "wavelength (calculateMetrics p) = NaN"
    using assms by (cases "calculateSpeedOfSound (temperature p)")
      (simp_all add: calculateMetrics_fields(2))
  have "ratio (calculateMetrics p) = js_div (obstacleSize p) (wavelength (calculateMetrics p))"
    by (simp add: calculateMetrics_fields)
  with w show r: "ratio (calculateMetrics p) = NaN"
    by (cases "obstacleSize p") simp_all
  then show "behavior (calculateMetrics p) = TRANSITIONAL"
    by (simp add: calculateMetrics_fields(4) js_gt_def)
qed

text \<open>
  C10. A call of calculateMetrics on a record of three numbers, whatever they are, returns
  a record and raises nothing, and the class it returns is exactly one of REFLECTING (the
  ratio is above 1), DIFFRACTING (it is not, and the ratio is below 0.5) and TRANSITIONAL
  (neither). Outside the documented domain it returns these values: with a frequency of
  zero and a speed that is finite and not zero, an infinite wavelength, a ratio of zero
  and DIFFRACTING for every finite obstacle size; with a frequency of zero and a speed of
  zero, NaN for the wavelength and the ratio, and TRANSITIONAL; with a negative frequency,
  a positive speed and a positive obstacle size, a wavelength and a ratio that are numbers
  and not positive, and DIFFRACTING; with a frequency of NaN, NaN for the wavelength and
  the ratio, and TRANSITIONAL.
\<close>

theorem C10_calculateMetrics_total:
  "calculateMetrics_call (Object p) = Inr (calculateMetrics p)
   \<and> ((behavior (calculateMetrics p) = REFLECTING
          \<and> js_gt (ratio (calculateMetrics p)) (Fin 1.0))
      \<or> (behavior (calculateMetrics p) = DIFFRACTING
          \<and> \<not> js_gt (ratio (calculateMetrics p)) (Fin 1.0)
          \<and> js_lt (ratio (calculateMetrics p)) (Fin 0.5))
      \<or> (behavior (calculateMetrics p) = TRANSITIONAL
          \<and> \<not> js_gt (ratio (calculateMetrics p)) (Fin 1.0)
          \<and> \<not> js_lt (ratio (calculateMetrics p)) (Fin 0.5)))
   \<and> (\<forall>s z. frequency p = Fin 0 \<and> speedOfSound (calculateMetrics p) = Fin s \<and> s \<noteq> 0
          \<and> obstacleSize p = Fin z \<longrightarrow>
          wavelength (calculateMetrics p) \<in> {PInf, NInf}
        \<and> ratio (calculateMetrics p) = Fin 0
        \<and> behavior (calculateMetrics p) = DIFFRACTING)
   \<and> (frequency p = Fin 0 \<and> speedOfSound (calculateMetrics p) = Fin 0 \<longrightarrow>
          wavelength (calculateMetrics p) = NaN \<and> ratio (calculateMetrics p) = NaN
        \<and> behavior (calculateMetrics p) = TRANSITIONAL)
   \<and> (\<forall>f s z. frequency p = Fin f \<and> f < 0
          \<and> speedOfSound (calculateMetrics p) = Fin s \<and> 0 < s
          \<and> obstacleSize p = Fin z \<and> 0 < z \<longrightarrow>
          \<not> js_gt (wavelength (calculateMetrics p)) (Fin 0)
        \<and> wavelength (calculateMetrics p) \<noteq> NaN
        \<and> \<not> js_gt (ratio (calculateMetrics p)) (Fin 0)
        \<and> ratio (calculateMetrics p) \<noteq> NaN
        \<and> behavior (calculateMetrics p) = DIFFRACTING)
   \<and> (frequency p = NaN \<longrightarrow>
          wavelength (calculateMetrics p) = NaN \<and> ratio (calculateMetrics p) = NaN
        \<and> behavior (calculateMetrics p) = TRANSITIONAL)"
proof (intro conjI allI impI)
  show "calculateMetrics_call (Object p) = Inr (calculateMetrics p)"
    by (simp add: calculateMetrics_call_def)
next
  show "(behavior (calculateMetrics p) = REFLECTING
          \<and> js_gt (ratio (calculateMetrics p)) (Fin 1.0))
      \<or> (behavior (calculateMetrics p) = DIFFRACTING
          \<and> \<not> js_gt (ratio (calculateMetrics p)) (Fin 1.0)
          \<and> js_lt (ratio (calculateMetrics p)) (Fin 0.5))
      \<or> (behavior (calculateMetrics p) = TRANSITIONAL
          \<and> \<not> js_gt (ratio (calculateMetrics p)) (Fin 1.0)
          \<and> \<not> js_lt (ratio (calculateMetrics p)) (Fin 0.5))"
    by (rule behavior_cases)
next
  fix s z
  assume a: "frequency p = Fin 0 \<and> speedOfSound (calculateMetrics p) = Fin s \<and> s \<noteq> 0
          \<and> obstacleSize p = Fin z"
  then show "wavelength (calculateMetrics p) \<in> {PInf, NInf}"
    using zero_frequency(1) [of p s z] by blast
  from a show "ratio (calculateMetrics p) = Fin 0"
    using zero_frequency(2) [of p s z] by blast
  from a show "behavior (calculateMetrics p) = DIFFRACTING"
    using zero_frequency(3) [of p s z] by blast
next
  assume a: "frequency p = Fin 0 \<and> speedOfSound (calculateMetrics p) = Fin 0"
  then show "wavelength (calculateMetrics p) = NaN"
    using zero_frequency_zero_speed(1) [of p] by blast
  from a show "ratio (calculateMetrics p) = NaN"
    using zero_frequency_zero_speed(2) [of p] by blast
  from a show "behavior (calculateMetrics p) = TRANSITIONAL"
    using zero_frequency_zero_speed(3) [of p] by blast
next
  fix f s z
  assume a: "frequency p = Fin f \<and> f < 0
          \<and> speedOfSound (calculateMetrics p) = Fin s \<and> 0 < s
          \<and> obstacleSize p = Fin z \<and> 0 < z"
  then have w: "js_lt (wavelength (calculateMetrics p)) (Fin 0)"
    using negative_frequency(1) [of p f s z] by blast
  from a have r: "js_lt (ratio (calculateMetrics p)) (Fin 0)"
    using negative_frequency(2) [of p f s z] by blast
  from js_lt_zero_not_positive [OF w]
  show "\<not> js_gt (wavelength (calculateMetrics p)) (Fin 0)"
    and "wavelength (calculateMetrics p) \<noteq> NaN" by blast+
  from js_lt_zero_not_positive [OF r]
  show "\<not> js_gt (ratio (calculateMetrics p)) (Fin 0)"
    and "ratio (calculateMetrics p) \<noteq> NaN" by blast+
  from a show "behavior (calculateMetrics p) = DIFFRACTING"
    using negative_frequency(3) [of p f s z] by blast
next
  assume a: "frequency p = NaN"
  then show "wavelength (calculateMetrics p) = NaN" by (rule nan_frequency(1))
  from a show "ratio (calculateMetrics p) = NaN" by (rule nan_frequency(2))
  from a show "behavior (calculateMetrics p) = TRANSITIONAL" by (rule nan_frequency(3))
qed

theorem C10_calculateMetrics_total_witness:
  "calculateMetrics_call (Object \<lparr> frequency = Fin 0, obstacleSize = Fin 1, temperature = Fin 20 \<rparr>)
     = Inr \<lparr> wavelength = PInf, speedOfSound = Fin 343.4, ratio = Fin 0, behavior = DIFFRACTING \<rparr>
   \<and> calculateMetrics_call
       (Object \<lparr> frequency = Fin (- 100), obstacleSize = Fin 1, temperature = Fin 20 \<rparr>)
     = Inr \<lparr> wavelength = Fin (- 3.434), speedOfSound = Fin 343.4, ratio = Fin (- (1 / 3.434)),
             behavior = DIFFRACTING \<rparr>
   \<and> behavior (calculateMetrics
        \<lparr> frequency = Fin 0, obstacleSize = Fin 1, temperature = Fin 20 \<rparr>) = DIFFRACTING
   \<and> behavior (calculateMetrics
        \<lparr> frequency = Fin (- 100), obstacleSize = Fin 1, temperature = Fin 20 \<rparr>) = DIFFRACTING
   \<and> behavior (calculateMetrics
        \<lparr> frequency = NaN, obstacleSize = Fin 1, temperature = Fin 20 \<rparr>) = TRANSITIONAL"
proof -
  let ?z = "\<lparr> frequency = Fin 0, obstacleSize = Fin 1, temperature = Fin 20 \<rparr>"
  let ?n = "\<lparr> frequency = Fin (- 100), obstacleSize = Fin 1, temperature = Fin 20 \<rparr>"
  let ?q = "\<lparr> frequency = NaN, obstacleSize = Fin 1, temperature = Fin 20 \<rparr>"
  have sz: "frequency ?z = Fin 0 \<and> speedOfSound (calculateMetrics ?z) = Fin 343.4
             \<and> (343.4::real) \<noteq> 0 \<and> obstacleSize ?z = Fin 1"
    by (simp add: calculateMetrics_fields(1) calculateSpeedOfSound_def)
  have sn: "frequency ?n = Fin (- 100) \<and> (- 100 :: real) < 0
             \<and> speedOfSound (calculateMetrics ?n) = Fin 343.4 \<and> (0::real) < 343.4
             \<and> obstacleSize ?n = Fin 1 \<and> (0::real) < 1"
    by (simp add: calculateMetrics_fields(1) calculateSpeedOfSound_def)
  have sq: "frequency ?q = NaN" by simp
  from C10_calculateMetrics_total [of ?z] sz
  have bz: "behavior (calculateMetrics ?z) = DIFFRACTING" by blast
  from C10_calculateMetrics_total [of ?n] sn
  have bn: "behavior (calculateMetrics ?n) = DIFFRACTING" by blast
  from C10_calculateMetrics_total [of ?q] sq
  have bq: "behavior (calculateMetrics ?q) = TRANSITIONAL" by blast
  have vz: "calculateMetrics ?z
     = \<lparr> wavelength = PInf, speedOfSound = Fin 343.4, ratio = Fin 0, behavior = DIFFRACTING \<rparr>"
    by (simp add: calculateMetrics_def calculateSpeedOfSound_def Let_def js_gt_def)
  have vn: "calculateMetrics ?n
     = \<lparr> wavelength = Fin (- 3.434), speedOfSound = Fin 343.4, ratio = Fin (- (1 / 3.434)),
             behavior = DIFFRACTING \<rparr>"
    by (simp add: calculateMetrics_def calculateSpeedOfSound_def Let_def js_gt_def)
  from C10_calculateMetrics_total [of ?z] vz
  have cz: "calculateMetrics_call (Object ?z)
     = Inr \<lparr> wavelength = PInf, speedOfSound = Fin 343.4, ratio = Fin 0, behavior = DIFFRACTING \<rparr>"
    by simp
  from C10_calculateMetrics_total [of ?n] vn
  have cn: "calculateMetrics_call (Object ?n)
     = Inr \<lparr> wavelength = Fin (- 3.434), speedOfSound = Fin 343.4, ratio = Fin (- (1 / 3.434)),
             behavior = DIFFRACTING \<rparr>"
    by simp
  from cz cn bz bn bq show ?thesis by blast
qed

section \<open>The wavelength in double precision\<close>

text \<open>Rounding to the nearest double is monotone.\<close>

lemma round_even_bounds: "\<lfloor>q\<rfloor> \<le> round_even q" "round_even q \<le> \<lfloor>q\<rfloor> + 1"
  by (simp_all add: round_even_def Let_def)

lemma round_even_of_int [simp]: "round_even (of_int k) = k"
  by (simp add: round_even_def)

lemma round_even_mono:
  assumes "q \<le> q'"
  shows "round_even q \<le> round_even q'"
proof (cases "\<lfloor>q\<rfloor> = \<lfloor>q'\<rfloor>")
  case True
  with assms show ?thesis by (auto simp add: round_even_def Let_def)
next
  case False
  with floor_mono [OF assms] have "\<lfloor>q\<rfloor> + 1 \<le> \<lfloor>q'\<rfloor>" by simp
  with round_even_bounds(2) [of q] round_even_bounds(1) [of q'] show ?thesis by linarith
qed

lemma binade_upper:
  assumes "0 < x"
  shows "x < 2 powr of_int (binade x + 1)"
proof -
  have "log 2 x < of_int \<lfloor>log 2 x\<rfloor> + 1" by linarith
  also have "\<dots> \<le> of_int (binade x + 1)" using assms by (simp add: binade_def)
  finally have "2 powr log 2 x < 2 powr of_int (binade x + 1)" by simp
  with assms show ?thesis by simp
qed

lemma binade_lower:
  assumes "0 < x" and "binade x = \<lfloor>log 2 x\<rfloor>"
  shows "2 powr of_int (binade x) \<le> x"
proof -
  have "of_int (binade x) \<le> log 2 x" using assms(2) by simp
  then have "2 powr of_int (binade x) \<le> 2 powr log 2 x" by simp
  with assms(1) show ?thesis by simp
qed

lemma binade_mono:
  assumes "0 < x" and "x \<le> y"
  shows "binade x \<le> binade y"
proof -
  from assms have "log 2 x \<le> log 2 y" by simp
  then have "\<lfloor>log 2 x\<rfloor> \<le> \<lfloor>log 2 y\<rfloor>" by (rule floor_mono)
  with assms show ?thesis by (simp add: binade_def)
qed

lemma ulp_pos [simp]: "0 < ulp x"
  by (simp add: ulp_def)

lemma powr_split: "(2::real) powr of_int (e + 1) = 2 powr 53 * 2 powr of_int (e - 52)"
proof -
  have "of_int (e + 1) = (53::real) + of_int (e - 52)" by simp
  then have "(2::real) powr of_int (e + 1) = 2 powr (53 + of_int (e - 52))" by (simp only:)
  then show ?thesis by (simp only: powr_add)
qed

lemma two_powr_53: "(2::real) powr 53 = of_int (2 ^ 53)"
proof -
  have "(2::real) powr (real (53::nat)) = 2 ^ 53" by (rule powr_realpow) simp
  then show ?thesis by simp
qed

lemma powr_split0: "(2::real) powr of_int e = 2 powr 52 * 2 powr of_int (e - 52)"
proof -
  have "of_int e = (52::real) + of_int (e - 52)" by simp
  then have "(2::real) powr of_int e = 2 powr (52 + of_int (e - 52))" by (simp only:)
  then show ?thesis by (simp only: powr_add)
qed

lemma two_powr_52: "(2::real) powr 52 = of_int (2 ^ 52)"
proof -
  have "(2::real) powr (real (52::nat)) = 2 ^ 52" by (rule powr_realpow) simp
  then show ?thesis by simp
qed

lemma nearest_upper:
  assumes "0 < x"
  shows "nearest x \<le> 2 powr of_int (binade x + 1)"
proof -
  have split: "2 powr of_int (binade x + 1) = 2 powr 53 * ulp x"
    by (simp only: powr_split ulp_def)
  from binade_upper [OF assms] have "x < 2 powr 53 * ulp x"
    by (simp only: split)
  then have "x \<le> of_int (2 ^ 53) * ulp x"
    by (simp only: two_powr_53 less_imp_le)
  then have "x / ulp x \<le> of_int (2 ^ 53)"
    by (simp only: pos_divide_le_eq [OF ulp_pos])
  from round_even_mono [OF this] have "round_even (x / ulp x) \<le> 2 ^ 53"
    by (simp only: round_even_of_int)
  then have "of_int (round_even (x / ulp x)) \<le> (2::real) powr 53"
    unfolding two_powr_53 by (simp only: of_int_le_iff)
  then have "nearest x \<le> 2 powr 53 * ulp x"
    unfolding nearest_def by (rule mult_right_mono) (simp add: less_imp_le)
  then show ?thesis by (simp only: split)
qed

lemma nearest_lower:
  assumes "0 < x" and "binade x = \<lfloor>log 2 x\<rfloor>"
  shows "2 powr of_int (binade x) \<le> nearest x"
proof -
  have split: "2 powr of_int (binade x) = 2 powr 52 * ulp x"
    by (simp only: powr_split0 [of "binade x"] ulp_def)
  from binade_lower [OF assms] have "2 powr 52 * ulp x \<le> x"
    by (simp only: split)
  then have "of_int (2 ^ 52) * ulp x \<le> x"
    by (simp only: two_powr_52)
  then have "of_int (2 ^ 52) \<le> x / ulp x"
    by (simp only: pos_le_divide_eq [OF ulp_pos])
  from round_even_mono [OF this] have "2 ^ 52 \<le> round_even (x / ulp x)"
    by (simp only: round_even_of_int)
  then have "(2::real) powr 52 \<le> of_int (round_even (x / ulp x))"
    unfolding two_powr_52 by (simp only: of_int_le_iff)
  then have "2 powr 52 * ulp x \<le> nearest x"
    unfolding nearest_def by (rule mult_right_mono) (simp add: less_imp_le)
  then show ?thesis by (simp only: split)
qed

lemma nearest_mono:
  assumes "0 < x" and "x \<le> y"
  shows "nearest x \<le> nearest y"
proof (cases "binade x = binade y")
  case True
  then have u: "ulp x = ulp y" by (simp add: ulp_def)
  from assms(2) have "x / ulp y \<le> y / ulp y"
    by (rule divide_right_mono) (simp add: less_imp_le)
  from round_even_mono [OF this] have "round_even (x / ulp y) \<le> round_even (y / ulp y)" .
  then have "(of_int (round_even (x / ulp y)) :: real) \<le> of_int (round_even (y / ulp y))"
    by (simp only: of_int_le_iff)
  then have "of_int (round_even (x / ulp y)) * ulp y \<le> of_int (round_even (y / ulp y)) * ulp y"
    by (rule mult_right_mono) (simp add: less_imp_le)
  then show ?thesis by (simp only: nearest_def u)
next
  case False
  with binade_mono [OF assms] have lt: "binade x + 1 \<le> binade y" by simp
  then have "- 1022 < binade y" by (simp add: binade_def)
  moreover from assms have y: "0 < y" by simp
  ultimately have "binade y = \<lfloor>log 2 y\<rfloor>" by (simp add: binade_def max_def split: if_splits)
  from nearest_lower [OF y this] have "2 powr of_int (binade y) \<le> nearest y" .
  moreover from lt have "(2::real) powr of_int (binade x + 1) \<le> 2 powr of_int (binade y)"
    by simp
  ultimately show ?thesis using nearest_upper [OF assms(1)] by linarith
qed

lemma nearest_nonneg:
  assumes "0 < x"
  shows "0 \<le> nearest x"
proof -
  from assms have "(0::real) \<le> x / ulp x"
    by (intro divide_nonneg_pos) (simp_all add: less_imp_le)
  then have "of_int 0 \<le> x / ulp x" by simp
  from round_even_mono [OF this] have "0 \<le> round_even (x / ulp x)"
    by (simp only: round_even_of_int)
  then have "(0::real) \<le> of_int (round_even (x / ulp x))" by simp
  then show ?thesis unfolding nearest_def by (rule mult_nonneg_nonneg) (simp add: less_imp_le)
qed

lemma round_double_pos:
  assumes "0 < x"
  shows "round_double x = (if 2 powr 1024 \<le> nearest x then PInf else Fin (nearest x))"
  using assms nearest_nonneg [OF assms]
  by (simp add: round_double_def Let_def nearest_def [symmetric])

lemma round_double_mono:
  assumes "0 < x" and "x \<le> y"
  shows "js_lt (round_double x) (round_double y) \<or> round_double x = round_double y"
proof -
  from assms have y: "0 < y" by simp
  from nearest_mono [OF assms] show ?thesis
    unfolding round_double_pos [OF assms(1)] round_double_pos [OF y] by auto
qed

lemma calculateMetrics_d_wavelength:
  "wavelength (calculateMetrics_d p) = d_div (calculateSpeedOfSound_d (temperature p)) (frequency p)"
  by (simp add: calculateMetrics_d_def Let_def)

lemma d_div_pos:
  assumes "0 < f"
  shows "d_div (Fin s) (Fin f) = round_double (s / f)"
  using assms by (simp add: d_div_def)

text \<open>
  C9. With the temperature fixed so that the speed of sound is positive, and the obstacle
  size fixed, a higher frequency never gives a longer wavelength: for 0 < f1 < f2 the
  wavelength at f2 is less than or equal to the wavelength at f1. Each wavelength is the
  double nearest to the quotient of the speed by the frequency; the quotients themselves
  are strictly decreasing, and two of them that are close enough round to the same double.
\<close>

theorem C9_wavelength_nonincreasing:
  assumes "temperature p1 = temperature p2" and "obstacleSize p1 = obstacleSize p2"
    and "js_lt (Fin 0) (calculateSpeedOfSound_d (temperature p1))"
    and "frequency p1 = Fin f1" and "frequency p2 = Fin f2" and "0 < f1" and "f1 < f2"
  shows "(js_lt (wavelength (calculateMetrics_d p2)) (wavelength (calculateMetrics_d p1))
          \<or> wavelength (calculateMetrics_d p2) = wavelength (calculateMetrics_d p1))
       \<and> (\<forall>s. calculateSpeedOfSound_d (temperature p1) = Fin s \<longrightarrow>
             wavelength (calculateMetrics_d p1) = round_double (s / f1)
           \<and> wavelength (calculateMetrics_d p2) = round_double (s / f2)
           \<and> s / f2 < s / f1)"
proof (cases "calculateSpeedOfSound_d (temperature p1)")
  case (Fin s)
  with assms(3) have s: "0 < s" by simp
  from assms(6,7) have f2: "0 < f2" by simp
  have w1: "wavelength (calculateMetrics_d p1) = round_double (s / f1)"
    using Fin assms(4,6) by (simp add: calculateMetrics_d_wavelength d_div_pos)
  have w2: "wavelength (calculateMetrics_d p2) = round_double (s / f2)"
    using Fin assms(1,5) f2 by (simp add: calculateMetrics_d_wavelength d_div_pos)
  from s assms(6,7) have lt: "s / f2 < s / f1" by (simp add: divide_strict_left_mono)
  from s f2 have "0 < s / f2" by simp
  from round_double_mono [OF this less_imp_le [OF lt]] w1 w2 lt Fin show ?thesis by simp
next
  case PInf
  from assms(6,7) have f2: "0 < f2" by simp
  from PInf assms(1,4,5,6) f2 show ?thesis
    by (simp add: calculateMetrics_d_wavelength d_div_def)
next
  case NInf
  with assms(3) show ?thesis by simp
next
  case NaN
  with assms(3) show ?thesis by simp
qed

text \<open>
  Evaluating the rounding: a number whose quotient by the spacing \<open>1 / 2 ^ k\<close> lies
  between \<open>2 ^ 52\<close> and \<open>2 ^ 53\<close> is rounded at that spacing.
\<close>

lemma binade_eq:
  assumes "0 < x" and "2 powr of_int e \<le> x" and "x < 2 powr of_int (e + 1)" and "- 1022 \<le> e"
  shows "binade x = e"
proof -
  from assms(1,2) have "log 2 (2 powr of_int e) \<le> log 2 x" by (subst log_le_cancel_iff) simp_all
  then have lo: "of_int e \<le> log 2 x" by simp
  from assms(1,3) have "log 2 x < log 2 (2 powr of_int (e + 1))"
    by (subst log_less_cancel_iff) simp_all
  then have hi: "log 2 x < of_int e + 1" by simp
  from lo hi have "\<lfloor>log 2 x\<rfloor> = e" by (rule floor_unique)
  with assms(1,4) show ?thesis by (simp add: binade_def)
qed

lemma two_powr_neg: "(2::real) powr of_int (- int k) = 1 / 2 ^ k"
proof -
  have "(2::real) powr of_int (- int k) = 2 powr (- real k)" by simp
  also have "\<dots> = 1 / 2 powr real k" by (simp only: powr_minus_divide)
  also have "(2::real) powr real k = 2 ^ k" by (rule powr_realpow) simp
  finally show ?thesis .
qed

lemma two_powr_nat: "(2::real) powr of_int (int m) = 2 ^ m"
proof -
  have "(2::real) powr real m = 2 ^ m" by (rule powr_realpow) simp
  then show ?thesis by simp
qed

lemma two_powr_above: "(2::real) powr of_int (int m - int k) = 2 ^ m / 2 ^ k"
proof -
  have "(2::real) powr of_int (int m - int k) = 2 powr (of_int (int m) + of_int (- int k))"
    by simp
  also have "\<dots> = 2 powr of_int (int m) * 2 powr of_int (- int k)" by (simp only: powr_add)
  finally show ?thesis by (simp only: two_powr_nat two_powr_neg) simp
qed

lemma round_double_eval:
  assumes "0 < x" and "2 ^ 52 / 2 ^ k \<le> x" and "x < 2 ^ 53 / 2 ^ k" and "k \<le> 1074"
    and "round_even (x * 2 ^ k) = n"
  shows "round_double x = Fin (of_int n / 2 ^ k)"
proof -
  let ?e = "52 - int k"
  have lo: "2 powr of_int ?e \<le> x"
    using assms(2) two_powr_above [of 52 k] by simp
  have "?e + 1 = 53 - int k" by simp
  then have hi: "x < 2 powr of_int (?e + 1)"
    using assms(3) two_powr_above [of 53 k] by simp
  from assms(4) have "- 1022 \<le> ?e" by simp
  from binade_eq [OF assms(1) lo hi this] have b: "binade x = ?e" .
  have "?e - 52 = - int k" by simp
  then have "ulp x = 2 powr of_int (- int k)" by (simp only: ulp_def b)
  then have u: "ulp x = 1 / 2 ^ k" by (simp only: two_powr_neg)
  then have n: "nearest x = of_int n / 2 ^ k"
    using assms(5) by (simp add: nearest_def)
  from nearest_upper [OF assms(1)] b have "nearest x \<le> 2 powr of_int (53 - int k)"
    by (simp add: \<open>?e + 1 = 53 - int k\<close>)
  also have "\<dots> = 2 ^ 53 / 2 ^ k" using two_powr_above [of 53 k] by simp
  also have "\<dots> \<le> 2 ^ 53" by (simp add: divide_le_eq_1 field_simps)
  also have "\<dots> < (2::real) powr 1024" by simp
  finally have "\<not> 2 powr 1024 \<le> nearest x" by simp
  with n show ?thesis unfolding round_double_pos [OF assms(1)] by simp
qed

lemma lit_3314: "round_double 331.4 = Fin (5830050455119462 / 2 ^ 44)"
  using round_double_eval [of "331.4" 44 5830050455119462]
  by (simp add: round_even_def Let_def)

lemma lit_06: "round_double 0.6 = Fin (5404319552844595 / 2 ^ 53)"
  using round_double_eval [of "0.6" 53 5404319552844595]
  by (simp add: round_even_def Let_def)

lemma mul_06_20: "round_double (5404319552844595 / 2 ^ 53 * 20) = Fin 12"
  using round_double_eval [of "5404319552844595 / 2 ^ 53 * 20" 49 6755399441055744]
  by (simp add: round_even_def Let_def)

lemma add_speed: "round_double (5830050455119462 / 2 ^ 44 + 12) = Fin (6041156687652454 / 2 ^ 44)"
  using round_double_eval [of "5830050455119462 / 2 ^ 44 + 12" 44 6041156687652454]
  by (simp add: round_even_def Let_def)

lemma speed_20: "calculateSpeedOfSound_d (Fin 20) = Fin (6041156687652454 / 2 ^ 44)"
  by (simp only: calculateSpeedOfSound_d_def d_add_def d_mul_def rnd.simps js_mul.simps
      js_add.simps lit_3314 lit_06 mul_06_20 add_speed)

lemma div_60: "round_double (6041156687652454 / 2 ^ 44 / 60) = Fin (6443900466829284 / 2 ^ 50)"
  using round_double_eval [of "6041156687652454 / 2 ^ 44 / 60" 50 6443900466829284]
  by (simp add: round_even_def Let_def)

lemma div_60_next:
  "round_double (6041156687652454 / 2 ^ 44 / (60 + 1 / 2 ^ 47)) = Fin (6443900466829284 / 2 ^ 50)"
  using round_double_eval [of "6041156687652454 / 2 ^ 44 / (60 + 1 / 2 ^ 47)" 50 6443900466829284]
  by (simp add: round_even_def Let_def)

lemma double_60_next: "round_double (60 + 1 / 2 ^ 47) = Fin (60 + 1 / 2 ^ 47)"
  using round_double_eval [of "60 + 1 / 2 ^ 47" 47 8444249301319681]
  by (simp add: round_even_def Let_def)

lemma double_60: "round_double 60 = Fin 60"
  using round_double_eval [of 60 47 8444249301319680]
  by (simp add: round_even_def Let_def)

lemma div_50: "round_double (6041156687652454 / 2 ^ 44 / 50) = Fin (7732680560195141 / 2 ^ 50)"
  using round_double_eval [of "6041156687652454 / 2 ^ 44 / 50" 50 7732680560195141]
  by (simp add: round_even_def Let_def)

lemma div_2000: "round_double (6041156687652454 / 2 ^ 44 / 2000) = Fin (6186144448156113 / 2 ^ 55)"
  using round_double_eval [of "6041156687652454 / 2 ^ 44 / 2000" 55 6186144448156113]
  by (simp add: round_even_def Let_def)

text \<open>
  At 20 degrees the frequencies 60 and 60 + 1 / 2 ^ 47, two doubles next to each other,
  give the same wavelength.
\<close>

theorem C9_wavelength_nonincreasing_counterexample:
  "round_double 60 = Fin 60
   \<and> round_double (60 + 1 / 2 ^ 47) = Fin (60 + 1 / 2 ^ 47)
   \<and> (0::real) < 60 \<and> (60::real) < 60 + 1 / 2 ^ 47
   \<and> calculateSpeedOfSound_d (Fin 20) = Fin (6041156687652454 / 2 ^ 44)
   \<and> js_lt (Fin 0) (calculateSpeedOfSound_d (Fin 20))
   \<and> wavelength (calculateMetrics_d
        \<lparr> frequency = Fin 60, obstacleSize = Fin 1, temperature = Fin 20 \<rparr>)
      = Fin (6443900466829284 / 2 ^ 50)
   \<and> wavelength (calculateMetrics_d
        \<lparr> frequency = Fin (60 + 1 / 2 ^ 47), obstacleSize = Fin 1, temperature = Fin 20 \<rparr>)
      = Fin (6443900466829284 / 2 ^ 50)
   \<and> \<not> js_lt (wavelength (calculateMetrics_d
        \<lparr> frequency = Fin (60 + 1 / 2 ^ 47), obstacleSize = Fin 1, temperature = Fin 20 \<rparr>))
        (wavelength (calculateMetrics_d
        \<lparr> frequency = Fin 60, obstacleSize = Fin 1, temperature = Fin 20 \<rparr>))"
proof -
  let ?p1 = "\<lparr> frequency = Fin 60, obstacleSize = Fin 1, temperature = Fin 20 \<rparr>"
  let ?p2 = "\<lparr> frequency = Fin (60 + 1 / 2 ^ 47), obstacleSize = Fin 1, temperature = Fin 20 \<rparr>"
  have d1: "js_div (Fin (6041156687652454 / 2 ^ 44)) (Fin 60)
              = Fin (6041156687652454 / 2 ^ 44 / 60)" by simp
  have d2: "js_div (Fin (6041156687652454 / 2 ^ 44)) (Fin (60 + 1 / 2 ^ 47))
              = Fin (6041156687652454 / 2 ^ 44 / (60 + 1 / 2 ^ 47))" by simp
  have w1: "wavelength (calculateMetrics_d ?p1) = Fin (6443900466829284 / 2 ^ 50)"
    by (simp only: calculateMetrics_d_wavelength SimulationParams.simps speed_20 d_div_def
        d1 rnd.simps div_60)
  have w2: "wavelength (calculateMetrics_d ?p2) = Fin (6443900466829284 / 2 ^ 50)"
    by (simp only: calculateMetrics_d_wavelength SimulationParams.simps speed_20 d_div_def
        d2 rnd.simps div_60_next)
  have "\<not> js_lt (wavelength (calculateMetrics_d ?p2)) (wavelength (calculateMetrics_d ?p1))"
    unfolding w1 w2 by simp
  moreover have "(0::real) < 60" "(60::real) < 60 + 1 / 2 ^ 47" by simp_all
  moreover have "js_lt (Fin 0) (calculateSpeedOfSound_d (Fin 20))"
    by (simp only: speed_20) simp
  ultimately show ?thesis using double_60 double_60_next speed_20 w1 w2 by blast
qed

theorem C9_wavelength_nonincreasing_witness:
  "js_lt (Fin 0) (calculateSpeedOfSound_d (Fin 20))
   \<and> wavelength (calculateMetrics_d
        \<lparr> frequency = Fin 50, obstacleSize = Fin 1, temperature = Fin 20 \<rparr>)
      = Fin (7732680560195141 / 2 ^ 50)
   \<and> wavelength (calculateMetrics_d
        \<lparr> frequency = Fin 2000, obstacleSize = Fin 1, temperature = Fin 20 \<rparr>)
      = Fin (6186144448156113 / 2 ^ 55)
   \<and> js_lt (wavelength (calculateMetrics_d
          \<lparr> frequency = Fin 2000, obstacleSize = Fin 1, temperature = Fin 20 \<rparr>))
        (wavelength (calculateMetrics_d
          \<lparr> frequency = Fin 50, obstacleSize = Fin 1, temperature = Fin 20 \<rparr>))"
proof -
  let ?lo = "\<lparr> frequency = Fin 50, obstacleSize = Fin 1, temperature = Fin 20 \<rparr>"
  let ?hi = "\<lparr> frequency = Fin 2000, obstacleSize = Fin 1, temperature = Fin 20 \<rparr>"
  have sp: "js_lt (Fin 0) (calculateSpeedOfSound_d (temperature ?lo))"
    by (simp only: SimulationParams.simps speed_20) simp
  have main: "(js_lt (wavelength (calculateMetrics_d ?hi)) (wavelength (calculateMetrics_d ?lo))
          \<or> wavelength (calculateMetrics_d ?hi) = wavelength (calculateMetrics_d ?lo))
       \<and> (\<forall>s. calculateSpeedOfSound_d (temperature ?lo) = Fin s \<longrightarrow>
             wavelength (calculateMetrics_d ?lo) = round_double (s / 50)
           \<and> wavelength (calculateMetrics_d ?hi) = round_double (s / 2000)
           \<and> s / 2000 < s / 50)"
    by (rule C9_wavelength_nonincreasing [of ?lo ?hi 50 2000, OF _ _ sp]) simp_all
  have s20: "calculateSpeedOfSound_d (temperature ?lo) = Fin (6041156687652454 / 2 ^ 44)"
    by (simp only: SimulationParams.simps speed_20)
  from main s20 have
    "wavelength (calculateMetrics_d ?lo) = round_double (6041156687652454 / 2 ^ 44 / 50)"
    "wavelength (calculateMetrics_d ?hi) = round_double (6041156687652454 / 2 ^ 44 / 2000)"
    by blast+
  then have w: "wavelength (calculateMetrics_d ?lo) = Fin (7732680560195141 / 2 ^ 50)"
    "wavelength (calculateMetrics_d ?hi) = Fin (6186144448156113 / 2 ^ 55)"
    by (simp_all only: div_50 div_2000)
  have sp': "js_lt (Fin 0) (calculateSpeedOfSound_d (Fin 20))"
    by (simp only: speed_20) simp
  have "js_lt (wavelength (calculateMetrics_d ?hi)) (wavelength (calculateMetrics_d ?lo))"
    unfolding w by simp
  with sp' w show ?thesis by blast
qed

section \<open>Loops\<close>

lemma for_loop_stop: "\<not> js_lt v b \<Longrightarrow> for_loop v b s body = Some []"
  by (subst for_loop.simps) simp

lemma for_loop_step:
  "js_lt v b \<Longrightarrow> for_loop v b s body =
     Option.bind (for_loop (js_add v s) b s body) (\<lambda>rest. Some (body v @ rest))"
  by (subst for_loop.simps) simp

lemma for_loop_Some_not_inv:
  assumes "for_loop v b s body = Some y"
  shows "(\<forall>x. I x \<longrightarrow> js_lt x b \<and> I (js_add x s)) \<longrightarrow> \<not> I v"
proof (rule for_loop.raw_induct
    [where P = "\<lambda>v b s body y. (\<forall>x. I x \<longrightarrow> js_lt x b \<and> I (js_add x s)) \<longrightarrow> \<not> I v",
     OF _ assms])
  fix f v b s and body :: "jsnum \<Rightarrow> cmd list" and y
  assume IH: "\<And>v b s body y. f v b s body = Some y \<Longrightarrow>
                (\<forall>x. I x \<longrightarrow> js_lt x b \<and> I (js_add x s)) \<longrightarrow> \<not> I v"
    and eq: "(if js_lt v b
              then Option.bind (f (js_add v s) b s body) (\<lambda>rest. Some (body v @ rest))
              else Some []) = Some y"
  show "(\<forall>x. I x \<longrightarrow> js_lt x b \<and> I (js_add x s)) \<longrightarrow> \<not> I v"
  proof (intro impI notI)
    assume inv: "\<forall>x. I x \<longrightarrow> js_lt x b \<and> I (js_add x s)" and iv: "I v"
    then have lt: "js_lt v b" and nxt: "I (js_add v s)" by blast+
    from eq lt obtain rest where "f (js_add v s) b s body = Some rest"
      by (auto split: bind_splits)
    from IH [OF this] inv nxt show False by blast
  qed
qed

lemma for_loop_diverges:
  assumes "I v" and "\<And>x. I x \<Longrightarrow> js_lt x b \<and> I (js_add x s)"
  shows "for_loop v b s body = None"
proof (cases "for_loop v b s body")
  case None
  then show ?thesis .
next
  case (Some y)
  from for_loop_Some_not_inv [OF Some, of I] assms show ?thesis by blast
qed

lemma for_loop_zero_step:
  assumes "a < b"
  shows "for_loop (Fin a) (Fin b) (Fin 0) body = None"
  by (rule for_loop_diverges [where I = "\<lambda>x. x = Fin a"]) (use assms in auto)

lemma for_loop_negative_step:
  assumes "a < b" and "s < 0"
  shows "for_loop (Fin a) (Fin b) (Fin s) body = None"
  by (rule for_loop_diverges [where I = "\<lambda>x. \<exists>c. x = Fin c \<and> c < b"]) (use assms in auto)

lemma for_loop_NInf_step:
  assumes "a < b"
  shows "for_loop (Fin a) (Fin b) NInf body = None"
  by (rule for_loop_diverges [where I = "\<lambda>x. x = Fin a \<or> x = NInf"]) (use assms in auto)

lemma for_loop_finite:
  assumes "0 < s"
  shows "for_loop (Fin a) (Fin b) (Fin s) body =
           Some (concat (map (\<lambda>i. body (Fin (a + real i * s))) [0..<iterations a b s]))"
proof (induction "iterations a b s" arbitrary: a)
  case 0
  then have "\<lceil>(b - a) / s\<rceil> \<le> 0" by (simp add: iterations_def)
  then have "(b - a) / s \<le> 0" by (simp add: ceiling_le_iff)
  with assms have "b - a \<le> 0" by (simp add: divide_le_0_iff)
  then have "\<not> js_lt (Fin a) (Fin b)" by simp
  then show ?case using 0 by (simp add: for_loop_stop)
next
  case (Suc n)
  from Suc(2) have "0 < iterations a b s" by simp
  then have "0 < (b - a) / s" by (simp add: iterations_def)
  with assms have lt: "a < b" by (simp add: zero_less_divide_iff)
  have "(b - (a + s)) / s = (b - a) / s - 1" using assms by (simp add: field_simps)
  then have "iterations (a + s) b s = iterations a b s - 1"
    by (simp add: iterations_def nat_diff_distrib')
  with Suc(2) have n: "n = iterations (a + s) b s" by simp
  have "for_loop (Fin a) (Fin b) (Fin s) body =
          Some (body (Fin a) @ concat (map (\<lambda>i. body (Fin (a + s + real i * s))) [0..<n]))"
    using lt Suc(1) [OF n] n by (simp add: for_loop_step)
  also have "map (\<lambda>i. body (Fin (a + s + real i * s))) [0..<n]
               = map (\<lambda>i. body (Fin (a + real i * s))) (map Suc [0..<n])"
    by (simp add: algebra_simps)
  also have "body (Fin a) @ concat (map (\<lambda>i. body (Fin (a + real i * s))) (map Suc [0..<n]))
               = concat (map (\<lambda>i. body (Fin (a + real i * s))) [0..<Suc n])"
    by (simp only: map_Suc_upt upt_conv_Cons [of 0 "Suc n"]) simp
  finally show ?case using Suc(2) by simp
qed


section \<open>The frame\<close>

lemma for_loop_NaN_start: "for_loop NaN b s body = Some []"
  by (simp add: for_loop_stop)

lemma for_loop_PInf_step:
  "for_loop (Fin a) (Fin b) PInf body = Some (if a < b then body (Fin a) else [])"
  by (simp add: for_loop_step for_loop_stop)

lemma for_loop_NaN_step:
  "for_loop (Fin a) (Fin b) NaN body = Some (if a < b then body (Fin a) else [])"
  by (simp add: for_loop_step for_loop_stop)

lemma for_loop_all:
  assumes "for_loop v b s body = Some cs"
  shows "(\<forall>x. \<forall>c \<in> set (body x). Q c) \<longrightarrow> (\<forall>c \<in> set cs. Q c)"
proof (rule for_loop.raw_induct
    [where P = "\<lambda>v b s body cs. (\<forall>x. \<forall>c \<in> set (body x). Q c) \<longrightarrow> (\<forall>c \<in> set cs. Q c)",
     OF _ assms])
  fix f v b s and body :: "jsnum \<Rightarrow> cmd list" and y
  assume IH: "\<And>v b s body y. f v b s body = Some y \<Longrightarrow>
                (\<forall>x. \<forall>c \<in> set (body x). Q c) \<longrightarrow> (\<forall>c \<in> set y. Q c)"
    and eq: "(if js_lt v b
              then Option.bind (f (js_add v s) b s body) (\<lambda>rest. Some (body v @ rest))
              else Some []) = Some y"
  show "(\<forall>x. \<forall>c \<in> set (body x). Q c) \<longrightarrow> (\<forall>c \<in> set y. Q c)"
  proof (cases "js_lt v b")
    case True
    with eq obtain rest where r: "f (js_add v s) b s body = Some rest" and y: "y = body v @ rest"
      by (auto split: bind_splits)
    from IH [OF r] y show ?thesis by auto
  next
    case False
    with eq show ?thesis by auto
  qed
qed

lemma ppm_eq: "PIXELS_PER_METER (make_view pr t w h) = Fin (min 60 (real h / 6))"
  by (simp add: make_view_def Let_def Math_min_def min_def)

lemma view_fields:
  "width (make_view pr t w h) = Fin (real w)"
  "height (make_view pr t w h) = Fin (real h)"
  "centerX (make_view pr t w h) = Fin (real w / 2)"
  "centerY (make_view pr t w h) = Fin (real h / 2)"
  "sourceX (make_view pr t w h) = Fin (real w * 0.15)"
  "obstacleX (make_view pr t w h) = Fin (real w / 2)"
  "maxRadius (make_view pr t w h) = Fin (sqrt (real w * real w + real h * real h))"
  "wavelengthPx (make_view pr t w h)
     = js_mul (wavelength (metrics pr)) (Fin (min 60 (real h / 6)))"
  "phaseOffset (make_view pr t w h)
     = js_mod (Fin (real t * 2)) (js_mul (wavelength (metrics pr)) (Fin (min 60 (real h / 6))))"
  by (simp_all add: make_view_def Let_def Math_min_def min_def)

lemma drawGrid_total:
  assumes "0 < h \<or> w = 0"
  shows "\<exists>g. drawGrid (make_view pr t w h) = Some g"
proof (cases "0 < h")
  case True
  then have "0 < min 60 (real h / 6)" by simp
  then show ?thesis
    by (simp add: drawGrid_def ppm_eq view_fields for_loop_finite)
next
  case False
  with assms have "w = 0" "h = 0" by auto
  then show ?thesis
    by (simp add: drawGrid_def ppm_eq view_fields for_loop_stop)
qed

lemma drawGrid_hangs:
  assumes "h = 0" and "0 < w"
  shows "drawGrid (make_view pr t w h) = None"
  using assms by (simp add: drawGrid_def ppm_eq view_fields for_loop_zero_step)

lemma phase_loop_total:
  assumes "\<not> js_lt lam (Fin 0)" and "0 \<le> p"
  shows "\<exists>cs. for_loop (js_mod (Fin a) (js_mul lam (Fin p))) (Fin b) (js_mul lam (Fin p)) body
           = Some cs"
proof (cases lam)
  case (Fin l)
  with assms have "0 \<le> l * p" by simp
  then consider "l * p = 0" | "0 < l * p" by fastforce
  then show ?thesis
  proof cases
    case 1
    then show ?thesis using Fin by (simp add: for_loop_stop)
  next
    case 2
    then have "l \<noteq> 0" and "p \<noteq> 0" by auto
    with 2 show ?thesis using Fin by (simp add: for_loop_finite)
  qed
next
  case PInf
  with assms(2) show ?thesis by (auto simp add: for_loop_PInf_step for_loop_stop)
next
  case NInf
  with assms show ?thesis by simp
next
  case NaN
  then show ?thesis by (simp add: for_loop_stop)
qed

lemma drawIncidentWaves_total:
  assumes "\<not> js_lt (wavelength (metrics pr)) (Fin 0)"
  shows "\<exists>cs. drawIncidentWaves (make_view pr t w h) = Some cs"
  unfolding drawIncidentWaves_def view_fields
  by (rule phase_loop_total [OF assms]) simp

lemma drawReflectedWaves_total:
  assumes "\<not> js_lt (wavelength (metrics pr)) (Fin 0)"
  shows "\<exists>cs. drawReflectedWaves pr (make_view pr t w h) = Some cs"
proof (cases "js_gt (ratio (metrics pr)) (Fin 0.8)")
  case True
  have "\<exists>cs. for_loop (js_mod (Fin (real t * 2)) (js_mul (wavelength (metrics pr)) (Fin (min 60 (real h / 6)))))
         (Fin (sqrt (real w * real w + real h * real h)))
         (js_mul (wavelength (metrics pr)) (Fin (min 60 (real h / 6))))
         (reflectedWave pr (make_view pr t w h)) = Some cs"
    by (rule phase_loop_total [OF assms]) simp
  with True show ?thesis by (simp add: drawReflectedWaves_def view_fields)
next
  case False
  then show ?thesis by (simp add: drawReflectedWaves_def)
qed

lemma draw_frame_total:
  assumes "\<not> js_lt (wavelength (metrics pr)) (Fin 0)" and "0 < h \<or> w = 0"
  shows "\<exists>cs. draw_frame pr t w h = Some cs"
proof -
  from drawGrid_total [OF assms(2)] obtain g where "drawGrid (make_view pr t w h) = Some g" ..
  moreover from drawIncidentWaves_total [OF assms(1)]
  obtain i where "drawIncidentWaves (make_view pr t w h) = Some i" ..
  moreover from drawReflectedWaves_total [OF assms(1)]
  obtain r where "drawReflectedWaves pr (make_view pr t w h) = Some r" ..
  ultimately show ?thesis by (simp add: draw_frame_def Let_def)
qed

lemma draw_frame_hangs:
  assumes "h = 0" and "0 < w"
  shows "draw_frame pr t w h = None"
  using drawGrid_hangs [OF assms] by (simp add: draw_frame_def Let_def)

section \<open>The blend factor\<close>

lemma diffractionFactor_clamp:
  "diffractionFactor r = clamp (js_sub (Fin 1.5) r) (Fin 0) (Fin 1)"
  by (cases r) (simp_all add: diffractionFactor_def clamp_def Math_max_def Math_min_def
      js_sub_def js_gt_def)

lemma diffractionFactor_Fin:
  "diffractionFactor (Fin x) = Fin (max 0 (min 1 (1.5 - x)))"
  by (simp add: diffractionFactor_def Math_max_def Math_min_def js_sub_def max_def min_def)

lemma df_continuous: "continuous_on UNIV (\<lambda>x::real. max 0 (min 1 (1.5 - x)))"
  by (intro continuous_intros)

lemma df_antimono: "antimono (\<lambda>x::real. max 0 (min 1 (1.5 - x)))"
  by (rule antimonoI) (simp add: max_def min_def)

lemma df_decreasing:
  assumes "js_lt r1 r2"
  shows "js_lt (diffractionFactor r2) (diffractionFactor r1)
         \<or> diffractionFactor r2 = diffractionFactor r1"
  using assms
  by (cases r1; cases r2)
     (auto simp add: diffractionFactor_def Math_max_def Math_min_def js_sub_def)

lemma shadow_in_frame:
  assumes "draw_frame pr t w h = Some cs"
  shows "FillStyle (Rgba 9 9 11 (js_sub (Fin 1) (diffractionFactor (ratio (metrics pr)))))
           \<in> set cs"
  using assms
  by (auto simp add: draw_frame_def Let_def drawShadowZone_def split: bind_splits)

text \<open>
  C7. On every frame the blend factor is clamp(1.5 - ratio, 0, 1), and the shadow is filled
  with the opacity 1 minus that. On finite ratios it is the real function
  max 0 (min 1 (1.5 - x)), which is continuous and non-increasing; it does not increase on
  the infinite ratios either. It is 0 at a ratio of 1.5 and 1 at a ratio of 0.5.
\<close>

theorem C7_diffractionFactor:
  "(\<forall>r. diffractionFactor r = clamp (js_sub (Fin 1.5) r) (Fin 0) (Fin 1))
   \<and> (\<forall>pr t w h cs. draw_frame pr t w h = Some cs \<longrightarrow>
         FillStyle (Rgba 9 9 11 (js_sub (Fin 1)
            (clamp (js_sub (Fin 1.5) (ratio (metrics pr))) (Fin 0) (Fin 1)))) \<in> set cs)
   \<and> (\<forall>x. diffractionFactor (Fin x) = Fin (max 0 (min 1 (1.5 - x))))
   \<and> continuous_on UNIV (\<lambda>x::real. max 0 (min 1 (1.5 - x)))
   \<and> antimono (\<lambda>x::real. max 0 (min 1 (1.5 - x)))
   \<and> (\<forall>r1 r2. js_lt r1 r2 \<longrightarrow>
         js_lt (diffractionFactor r2) (diffractionFactor r1)
         \<or> diffractionFactor r2 = diffractionFactor r1)
   \<and> diffractionFactor (Fin 1.5) = Fin 0
   \<and> diffractionFactor (Fin 0.5) = Fin 1"
proof -
  have a: "\<forall>r. diffractionFactor r = clamp (js_sub (Fin 1.5) r) (Fin 0) (Fin 1)"
    by (simp add: diffractionFactor_clamp)
  have b: "\<forall>pr t w h cs. draw_frame pr t w h = Some cs \<longrightarrow>
         FillStyle (Rgba 9 9 11 (js_sub (Fin 1)
            (clamp (js_sub (Fin 1.5) (ratio (metrics pr))) (Fin 0) (Fin 1)))) \<in> set cs"
    using shadow_in_frame by (simp add: diffractionFactor_clamp)
  have c: "\<forall>x. diffractionFactor (Fin x) = Fin (max 0 (min 1 (1.5 - x)))"
    by (simp add: diffractionFactor_Fin)
  have d: "\<forall>r1 r2. js_lt r1 r2 \<longrightarrow>
         js_lt (diffractionFactor r2) (diffractionFactor r1)
         \<or> diffractionFactor r2 = diffractionFactor r1"
    using df_decreasing by blast
  have e: "diffractionFactor (Fin 1.5) = Fin 0" by (simp add: diffractionFactor_Fin)
  have f: "diffractionFactor (Fin 0.5) = Fin 1" by (simp add: diffractionFactor_Fin)
  from a b c df_continuous df_antimono d e f show ?thesis by blast
qed

lemma example_frame_total:
  "\<exists>cs. draw_frame (app_props \<lparr> frequency = Fin 343.4, obstacleSize = Fin 1, temperature = Fin 20 \<rparr>) 3 80 60 = Some cs"
  by (rule draw_frame_total) (simp_all add: app_props_def calculateMetrics_fields calculateSpeedOfSound_def)

theorem C7_diffractionFactor_witness:
  "js_lt (Fin 0.7) (Fin 1.2)
   \<and> diffractionFactor (Fin 0.7) = Fin 0.8
   \<and> diffractionFactor (Fin 1.2) = Fin 0.3
   \<and> js_lt (diffractionFactor (Fin 1.2)) (diffractionFactor (Fin 0.7))
   \<and> (\<exists>cs. draw_frame (app_props \<lparr> frequency = Fin 343.4, obstacleSize = Fin 1, temperature = Fin 20 \<rparr>) 3 80 60 = Some cs
          \<and> FillStyle (Rgba 9 9 11 (Fin 0.5)) \<in> set cs)"
proof -
  let ?P = "app_props \<lparr> frequency = Fin 343.4, obstacleSize = Fin 1, temperature = Fin 20 \<rparr>"
  note main = C7_diffractionFactor
  have lt: "js_lt (Fin 0.7) (Fin 1.2)" by simp
  from main have fin: "\<forall>x. diffractionFactor (Fin x) = Fin (max 0 (min 1 (1.5 - x)))"
    by blast
  have v1: "diffractionFactor (Fin 0.7) = Fin 0.8"
    and v2: "diffractionFactor (Fin 1.2) = Fin 0.3" by (simp_all add: fin)
  from main lt have "js_lt (diffractionFactor (Fin 1.2)) (diffractionFactor (Fin 0.7))
         \<or> diffractionFactor (Fin 1.2) = diffractionFactor (Fin 0.7)" by blast
  with v1 v2 have dec: "js_lt (diffractionFactor (Fin 1.2)) (diffractionFactor (Fin 0.7))"
    by simp
  from example_frame_total obtain cs where cs: "draw_frame ?P 3 80 60 = Some cs" ..
  have r: "ratio (metrics ?P) = Fin 1"
    by (simp add: app_props_def calculateMetrics_fields calculateSpeedOfSound_def)
  from main cs have "FillStyle (Rgba 9 9 11 (js_sub (Fin 1)
            (clamp (js_sub (Fin 1.5) (ratio (metrics ?P))) (Fin 0) (Fin 1)))) \<in> set cs"
    by blast
  from this [unfolded r] have "FillStyle (Rgba 9 9 11 (Fin 0.5)) \<in> set cs"
    by (simp add: clamp_def js_sub_def js_gt_def)
  with lt v1 v2 dec cs show ?thesis by blast
qed


section \<open>Reflected wavefronts\<close>


lemma pi_half_neq [simp]: "pi * 0.5 \<noteq> 0" "0 \<noteq> pi * 0.5" "pi * (5 / 10) \<noteq> 0"
  by simp_all








text \<open>Evaluating a frame on given numbers.\<close>

lemmas frame_simps = draw_frame_def make_view_def Let_def Math_min_def Math_max_def js_sub_def
  js_gt_def app_props_def calculateMetrics_def calculateSpeedOfSound_def fmod_def
  drawIncidentWaves_def drawGrid_def drawReflectedWaves_def for_loop_step for_loop_stop
  incidentWave_def reflectedWave_def reflectionOpacity_def diffractionFactor_def drawClear_def
  drawShadowZone_def drawObstacle_def drawSource_def drawLabels_def obstacleColor_def


lemma sqrt_100: "sqrt 10000 = 100"
  using real_sqrt_abs [of 100] by simp




section \<open>A wavelength that is not finite\<close>

lemma grid_finite_arc:
  assumes "drawGrid v = Some g"
  shows "list_all finite_arc g"
proof -
  from assms obtain xs ys where
    xs: "for_loop (Fin 0) (width v) (PIXELS_PER_METER v)
           (\<lambda>x. [MoveTo x (Fin 0), LineTo x (height v)]) = Some xs"
    and ys: "for_loop (Fin 0) (height v) (PIXELS_PER_METER v)
           (\<lambda>y. [MoveTo (Fin 0) y, LineTo (width v) y]) = Some ys"
    and g: "g = [StrokeStyle (Hex ''#18181b''), LineWidth (Fin 1), BeginPath] @ xs @ ys @ [Stroke]"
    by (auto simp add: drawGrid_def split: bind_splits)
  from for_loop_all [OF xs, of finite_arc] have "\<forall>c \<in> set xs. finite_arc c" by simp
  moreover from for_loop_all [OF ys, of finite_arc] have "\<forall>c \<in> set ys. finite_arc c" by simp
  ultimately show ?thesis unfolding g by (auto simp add: list_all_iff)
qed

lemma incidentWave_finite_arc:
  "list_all finite_arc (incidentWave (make_view pr t w h) (Fin r))"
  by (simp add: incidentWave_def Let_def view_fields isFinite_def)

lemma reflectedWave_finite_arc:
  "list_all finite_arc (reflectedWave pr (make_view pr t w h) (Fin r))"
  by (simp add: reflectedWave_def Let_def view_fields isFinite_def js_sub_def)

lemma fixed_parts_finite_arc:
  "list_all finite_arc (drawClear (make_view pr t w h))"
  "list_all finite_arc (drawShadowZone pr (make_view pr t w h))"
  "list_all finite_arc (drawObstacle pr (make_view pr t w h))"
  "list_all finite_arc (drawSource (make_view pr t w h))"
  "list_all finite_arc (drawLabels (make_view pr t w h))"
  by (simp_all add: drawClear_def drawShadowZone_def drawObstacle_def drawSource_def
      drawLabels_def view_fields isFinite_def)

text \<open>The two wave passes when the wavelength is not a finite number.\<close>

lemma waves_NaN_phase:
  assumes "phaseOffset v = NaN"
  shows "drawIncidentWaves v = Some []" and "drawReflectedWaves pr v = Some []"
  using assms by (simp_all add: drawIncidentWaves_def drawReflectedWaves_def for_loop_stop)

lemma phase_NaN:
  assumes "wavelength (metrics pr) = NaN \<or> (wavelength (metrics pr) = PInf \<and> h = 0)"
  shows "phaseOffset (make_view pr t w h) = NaN"
  using assms by (auto simp add: view_fields)

lemma waves_PInf:
  assumes "wavelength (metrics pr) = PInf" and "0 < h"
  shows "drawIncidentWaves (make_view pr t w h) =
           Some (if real t * 2 < sqrt (real w * real w + real h * real h)
                 then incidentWave (make_view pr t w h) (Fin (real t * 2)) else [])"
    and "drawReflectedWaves pr (make_view pr t w h) =
           Some (if js_gt (ratio (metrics pr)) (Fin 0.8)
                    \<and> real t * 2 < sqrt (real w * real w + real h * real h)
                 then reflectedWave pr (make_view pr t w h) (Fin (real t * 2)) else [])"
proof -
  from assms(2) have "0 < min 60 (real h / 6)" by simp
  then have ppm: "(min 60 (real h / 6) = 0) = False" "(0 < min 60 (real h / 6)) = True"
    by simp_all
  show "drawIncidentWaves (make_view pr t w h) =
           Some (if real t * 2 < sqrt (real w * real w + real h * real h)
                 then incidentWave (make_view pr t w h) (Fin (real t * 2)) else [])"
    using assms(1) ppm
    by (simp add: drawIncidentWaves_def view_fields for_loop_PInf_step)
  show "drawReflectedWaves pr (make_view pr t w h) =
           Some (if js_gt (ratio (metrics pr)) (Fin 0.8)
                    \<and> real t * 2 < sqrt (real w * real w + real h * real h)
                 then reflectedWave pr (make_view pr t w h) (Fin (real t * 2)) else [])"
    using assms(1) ppm
    by (simp add: drawReflectedWaves_def view_fields for_loop_PInf_step)
qed

text \<open>With a wavelength of -Infinity the incident pass never ends.\<close>

lemma waves_NInf_hang:
  assumes "wavelength (metrics pr) = NInf" and "0 < h"
    and "real t * 2 < sqrt (real w * real w + real h * real h)"
  shows "drawIncidentWaves (make_view pr t w h) = None"
    and "draw_frame pr t w h = None"
proof -
  from assms(2) have "0 < min 60 (real h / 6)" by simp
  then have ppm: "(min 60 (real h / 6) = 0) = False" "(0 < min 60 (real h / 6)) = True"
    by simp_all
  show inc: "drawIncidentWaves (make_view pr t w h) = None"
    using assms(1,3) ppm
    by (simp add: drawIncidentWaves_def view_fields for_loop_NInf_step)
  from drawGrid_total [of h w pr t] assms(2) obtain g where
    "drawGrid (make_view pr t w h) = Some g" by auto
  with inc show "draw_frame pr t w h = None"
    by (simp add: draw_frame_def Let_def)
qed

lemma nonfinite_wavelength_frame:
  assumes "wavelength (metrics pr) = PInf \<or> wavelength (metrics pr) = NaN"
    and "0 < h \<or> w = 0"
  shows "\<exists>inc refl cs.
           drawIncidentWaves (make_view pr t w h) = Some inc
         \<and> drawReflectedWaves pr (make_view pr t w h) = Some refl
         \<and> draw_frame pr t w h = Some cs
         \<and> list_all finite_arc cs
         \<and> (wavelength (metrics pr) = NaN \<longrightarrow> inc = [] \<and> refl = [])
         \<and> (wavelength (metrics pr) = PInf \<and> 0 < h \<longrightarrow>
              inc = (if real t * 2 < sqrt (real w * real w + real h * real h)
                     then incidentWave (make_view pr t w h) (Fin (real t * 2)) else []))"
proof -
  let ?v = "make_view pr t w h"
  let ?one = "if real t * 2 < sqrt (real w * real w + real h * real h)
              then incidentWave ?v (Fin (real t * 2)) else []"
  from drawGrid_total [OF assms(2)] obtain g where g: "drawGrid ?v = Some g" ..
  note gf = grid_finite_arc [OF g]
  have "\<exists>inc refl. drawIncidentWaves ?v = Some inc \<and> drawReflectedWaves pr ?v = Some refl
          \<and> list_all finite_arc inc \<and> list_all finite_arc refl
          \<and> (wavelength (metrics pr) = NaN \<longrightarrow> inc = [] \<and> refl = [])
          \<and> (wavelength (metrics pr) = PInf \<and> 0 < h \<longrightarrow> inc = ?one)"
  proof (cases "wavelength (metrics pr) = PInf \<and> 0 < h")
    case True
    then have p: "wavelength (metrics pr) = PInf" and h: "0 < h" by simp_all
    have "drawIncidentWaves ?v = Some ?one"
      using waves_PInf(1) [OF p h] .
    moreover have "list_all finite_arc ?one"
      using incidentWave_finite_arc [of pr t w h "real t * 2"] by simp
    moreover have "list_all finite_arc
        (if js_gt (ratio (metrics pr)) (Fin 0.8)
            \<and> real t * 2 < sqrt (real w * real w + real h * real h)
         then reflectedWave pr ?v (Fin (real t * 2)) else [])"
      using reflectedWave_finite_arc [of pr t w h "real t * 2"] by simp
    moreover have "wavelength (metrics pr) \<noteq> NaN" using p by simp
    ultimately show ?thesis using waves_PInf(2) [OF p h, of t w] by blast
  next
    case False
    with assms(1) have "wavelength (metrics pr) = NaN \<or> (wavelength (metrics pr) = PInf \<and> h = 0)"
      by auto
    from phase_NaN [OF this] have ph: "phaseOffset ?v = NaN" .
    have e: "list_all finite_arc ([] :: cmd list)" by simp
    from waves_NaN_phase(1) [OF ph] waves_NaN_phase(2) [OF ph, of pr] False e
    show ?thesis by blast
  qed
  then obtain inc refl where i: "drawIncidentWaves ?v = Some inc"
    and r: "drawReflectedWaves pr ?v = Some refl"
    and fi: "list_all finite_arc inc" and fr: "list_all finite_arc refl"
    and nan: "wavelength (metrics pr) = NaN \<longrightarrow> inc = [] \<and> refl = []"
    and pinf: "wavelength (metrics pr) = PInf \<and> 0 < h \<longrightarrow> inc = ?one"
    by blast
  let ?cs = "drawClear ?v @ g @ [LineWidth (Fin 2), Save] @ inc
              @ drawShadowZone pr ?v @ refl @ drawObstacle pr ?v
              @ drawSource ?v @ drawLabels ?v @ [Restore]"
  have fr': "draw_frame pr t w h = Some ?cs"
    using g i r by (simp add: draw_frame_def Let_def)
  have fin: "list_all finite_arc ?cs"
    using gf fi fr fixed_parts_finite_arc by simp
  from i r fr' fin nan pinf show ?thesis by blast
qed

section \<open>The page\<close>

lemma render_eq:
  assumes "canvas (runs w ! k)" "container (runs w ! k)" "ctx (runs w ! k)"
  shows "render k w =
     (case draw_frame (props (runs w ! k)) (time (runs w ! k)) (clientWidth w) (clientHeight w) of
        None \<Rightarrow> None
      | Some cs \<Rightarrow> Some (w\<lparr> canvas_width := clientWidth w, canvas_height := clientHeight w,
            frames := frames w @ [cs],
            raf_queue := raf_queue w @ [(raf_next w, k)],
            raf_next := raf_next w + 1,
            runs := (runs w)[k := (runs w ! k)\<lparr> time := time (runs w ! k) + 1,
                                               animationFrameId := Some (raf_next w) \<rparr>] \<rparr>))"
  using assms
  by (auto simp add: render_def Let_def requestAnimationFrame_def split: option.splits)

lemma wf_initial: "wf (initial cv ct cx a b)"
  by (simp add: wf_def initial_def)

lemma wf_run_cleanup:
  assumes "wf w"
  shows "raf_queue (run_cleanup w) = []" and "cleanup (run_cleanup w) = None"
    and "frames (run_cleanup w) = frames w" and "wf (run_cleanup w)"
    and "mounted (run_cleanup w) = mounted w" and "runs (run_cleanup w) = runs w"
  using assms
  by (auto simp add: wf_def run_cleanup_def cancelAnimationFrame_def split: option.splits)

lemma wf_useEffect_body:
  assumes "mounted w" and "cleanup w = None" and "raf_queue w = []"
    and "useEffect_body p w = Some w'"
  shows "wf w'"
proof (cases "canvasRef w \<and> containerRef w \<and> context2d w")
  case False
  with assms show ?thesis by (auto simp add: useEffect_body_def wf_def split: if_splits)
next
  case True
  let ?r = "\<lparr> canvas = canvasRef w, container = containerRef w, ctx = context2d w,
               props = p, time = 0, animationFrameId = None \<rparr>"
  let ?w1 = "w\<lparr> runs := runs w @ [?r] \<rparr>"
  have flags: "canvas (runs ?w1 ! length (runs w))" "container (runs ?w1 ! length (runs w))"
    "ctx (runs ?w1 ! length (runs w))"
    using True by simp_all
  from assms(4) True obtain w2 where r: "render (length (runs w)) ?w1 = Some w2"
    and w': "w' = w2\<lparr> cleanup := Some (length (runs w)) \<rparr>"
    by (auto simp add: useEffect_body_def Let_def split: option.splits)
  from r obtain cs where w2: "w2 = ?w1\<lparr> canvas_width := clientWidth ?w1,
            canvas_height := clientHeight ?w1,
            frames := frames ?w1 @ [cs],
            raf_queue := raf_queue ?w1 @ [(raf_next ?w1, length (runs w))],
            raf_next := raf_next ?w1 + 1,
            runs := (runs ?w1)[length (runs w) := (runs ?w1 ! length (runs w))\<lparr>
                 time := time (runs ?w1 ! length (runs w)) + 1,
                 animationFrameId := Some (raf_next ?w1) \<rparr>] \<rparr>"
    unfolding render_eq [OF flags] by (auto split: option.splits)
  show ?thesis
    unfolding w' w2 using assms(1,3) True by (simp add: wf_def)
qed

lemma wf_AnimationFrame:
  assumes "wf w" and "step AnimationFrame w = Some w'"
  shows "wf w'"
proof (cases "cleanup w")
  case None
  with assms show ?thesis by (auto simp add: wf_def)
next
  case (Some k)
  with assms(1) obtain i where k: "k < length (runs w)" and
    flags: "canvas (runs w ! k)" "container (runs w ! k)" "ctx (runs w ! k)"
    and q: "raf_queue w = [(i, k)]" and m: "mounted w"
    by (auto simp add: wf_def)
  let ?w0 = "w\<lparr> raf_queue := [] \<rparr>"
  have flags0: "canvas (runs ?w0 ! k)" "container (runs ?w0 ! k)" "ctx (runs ?w0 ! k)"
    using flags by simp_all
  from assms(2) q have "render k ?w0 = Some w'"
    by (auto split: option.splits)
  then obtain cs where "w' = ?w0\<lparr> canvas_width := clientWidth ?w0,
            canvas_height := clientHeight ?w0,
            frames := frames ?w0 @ [cs],
            raf_queue := raf_queue ?w0 @ [(raf_next ?w0, k)],
            raf_next := raf_next ?w0 + 1,
            runs := (runs ?w0)[k := (runs ?w0 ! k)\<lparr>
                 time := time (runs ?w0 ! k) + 1,
                 animationFrameId := Some (raf_next ?w0) \<rparr>] \<rparr>"
    unfolding render_eq [OF flags0] by (auto split: option.splits)
  then show ?thesis using Some k flags m by (simp add: wf_def)
qed

lemma wf_step:
  assumes "wf w" and "step e w = Some w'"
  shows "wf w'"
proof (cases e)
  case (Mount p)
  show ?thesis
  proof (cases "mounted w")
    case True
    with assms Mount show ?thesis by simp
  next
    case False
    with assms(1) have "cleanup w = None" "raf_queue w = []" by (auto simp add: wf_def)
    then show ?thesis
      using wf_useEffect_body [of "w\<lparr> mounted := True \<rparr>" p w'] assms(2) Mount False by simp
  qed
next
  case (DepsChange p)
  show ?thesis
  proof (cases "mounted w")
    case True
    with wf_run_cleanup [OF assms(1)] assms(2) DepsChange
    show ?thesis using wf_useEffect_body [of "run_cleanup w" p w'] by simp
  next
    case False
    with assms DepsChange show ?thesis by simp
  qed
next
  case Unmount
  with assms wf_run_cleanup [OF assms(1)] show ?thesis
    by (auto simp add: wf_def split: if_splits)
next
  case AnimationFrame
  with assms wf_AnimationFrame show ?thesis by blast
next
  case (Resize a b)
  with assms show ?thesis by (auto simp add: wf_def split: option.splits)
next
  case (SetRefs a b c)
  with assms show ?thesis by (auto simp add: wf_def split: option.splits)
qed

lemma wf_run:
  assumes "wf w" and "run es w = Some w'"
  shows "wf w'"
  using assms
proof (induction es arbitrary: w)
  case Nil
  then show ?case by simp
next
  case (Cons e es)
  from Cons.prems(2) obtain w1 where s: "step e w = Some w1" and r: "run es w1 = Some w'"
    by (auto split: option.splits)
  from Cons.IH [OF wf_step [OF Cons.prems(1) s] r] show ?case .
qed

text \<open>With nothing mounted and no callback held, nothing moves.\<close>

lemma idle_step:
  assumes "\<not> mounted w" and "raf_queue w = []" and "\<not> is_Mount e"
  shows "\<exists>w'. step e w = Some w' \<and> \<not> mounted w' \<and> raf_queue w' = []
           \<and> frames w' = frames w \<and> cleanup w' = cleanup w"
  using assms by (cases e) simp_all

lemma idle_run:
  assumes "\<not> mounted w" and "raf_queue w = []" and "list_all (\<lambda>e. \<not> is_Mount e) es"
  shows "\<exists>w'. run es w = Some w' \<and> raf_queue w' = [] \<and> frames w' = frames w"
  using assms
proof (induction es arbitrary: w)
  case Nil
  then show ?case by simp
next
  case (Cons e es)
  from Cons.prems have "\<not> is_Mount e" and rest: "list_all (\<lambda>e. \<not> is_Mount e) es" by simp_all
  from idle_step [OF Cons.prems(1,2) this(1)] obtain w1 where
    s: "step e w = Some w1" and i: "\<not> mounted w1" "raf_queue w1 = []"
    and f: "frames w1 = frames w" by blast
  from Cons.IH [OF i rest] s f show ?case by auto
qed

lemma frame_ends_total:
  assumes "frame_ends p w h"
  shows "\<exists>cs. draw_frame p t w h = Some cs"
  using assms draw_frame_total [of p h w t] by (simp add: frame_ends_def)

lemma running_time: "running w p n \<Longrightarrow> current_time w = Some n"
  by (auto simp add: running_def current_time_def)

lemma useEffect_body_missing:
  assumes "\<not> (canvasRef w \<and> containerRef w \<and> context2d w)"
  shows "useEffect_body p w = Some (w\<lparr> cleanup := None \<rparr>)"
  using assms by (auto simp add: useEffect_body_def)

lemma useEffect_body_start:
  assumes "canvasRef w" and "containerRef w" and "context2d w"
    and "mounted w" and "cleanup w = None" and "raf_queue w = []"
    and "draw_frame p 0 (clientWidth w) (clientHeight w) = Some cs"
  shows "\<exists>w'. useEffect_body p w = Some w' \<and> running w' p 1 \<and> same_surface w w'
           \<and> frames w' = frames w @ [cs]
           \<and> raf_queue w' = [(raf_next w, length (runs w))]"
proof -
  let ?r = "\<lparr> canvas = canvasRef w, container = containerRef w, ctx = context2d w,
               props = p, time = 0, animationFrameId = None \<rparr>"
  let ?w1 = "w\<lparr> runs := runs w @ [?r] \<rparr>"
  let ?k = "length (runs w)"
  have flags: "canvas (runs ?w1 ! ?k)" "container (runs ?w1 ! ?k)" "ctx (runs ?w1 ! ?k)"
    using assms(1-3) by simp_all
  have fr: "draw_frame (props (runs ?w1 ! ?k)) (time (runs ?w1 ! ?k))
              (clientWidth ?w1) (clientHeight ?w1) = Some cs"
    using assms(7) by simp
  let ?w2 = "?w1\<lparr> canvas_width := clientWidth ?w1,
            canvas_height := clientHeight ?w1,
            frames := frames ?w1 @ [cs],
            raf_queue := raf_queue ?w1 @ [(raf_next ?w1, ?k)],
            raf_next := raf_next ?w1 + 1,
            runs := (runs ?w1)[?k := (runs ?w1 ! ?k)\<lparr>
                 time := time (runs ?w1 ! ?k) + 1,
                 animationFrameId := Some (raf_next ?w1) \<rparr>] \<rparr>"
  have r: "render ?k ?w1 = Some ?w2"
    unfolding render_eq [OF flags] fr by simp
  have u: "useEffect_body p w = Some (?w2\<lparr> cleanup := Some ?k \<rparr>)"
    using assms(1-3) r by (simp add: useEffect_body_def Let_def)
  have "running (?w2\<lparr> cleanup := Some ?k \<rparr>) p 1"
    using assms(1-6) by (simp add: running_def wf_def)
  moreover have "same_surface w (?w2\<lparr> cleanup := Some ?k \<rparr>)"
    by (simp add: same_surface_def)
  ultimately show ?thesis using u assms(6) by simp
qed

lemma step_Mount_start:
  assumes "wf w" and "\<not> mounted w"
    and "canvasRef w" and "containerRef w" and "context2d w"
    and "draw_frame p 0 (clientWidth w) (clientHeight w) = Some cs"
  shows "\<exists>w'. step (Mount p) w = Some w' \<and> running w' p 1 \<and> same_surface w w'
           \<and> frames w' = frames w @ [cs]
           \<and> raf_queue w' = [(raf_next w, length (runs w))]"
proof -
  from assms(1,2) have "cleanup w = None" "raf_queue w = []" by (auto simp add: wf_def)
  with useEffect_body_start [of "w\<lparr> mounted := True \<rparr>" p cs] assms
  show ?thesis by (simp add: same_surface_def)
qed

lemma step_DepsChange_start:
  assumes "wf w" and "mounted w"
    and "canvasRef w" and "containerRef w" and "context2d w"
    and "draw_frame p 0 (clientWidth w) (clientHeight w) = Some cs"
  shows "\<exists>w'. step (DepsChange p) w = Some w' \<and> running w' p 1 \<and> same_surface w w'
           \<and> frames w' = frames w @ [cs]
           \<and> raf_queue w' = [(raf_next w, length (runs w))]"
proof -
  let ?c = "run_cleanup w"
  note c = wf_run_cleanup [OF assms(1)]
  have same: "canvasRef ?c = canvasRef w" "containerRef ?c = containerRef w"
    "context2d ?c = context2d w" "clientWidth ?c = clientWidth w"
    "clientHeight ?c = clientHeight w" "raf_next ?c = raf_next w"
    by (simp_all add: run_cleanup_def cancelAnimationFrame_def split: option.splits)
  from useEffect_body_start [of ?c p cs] assms c same
  show ?thesis by (simp add: same_surface_def)
qed

lemma step_AnimationFrame_running:
  assumes "running w p n"
    and "draw_frame p n (clientWidth w) (clientHeight w) = Some cs"
  shows "\<exists>w'. step AnimationFrame w = Some w' \<and> running w' p (n + 1) \<and> same_surface w w'
           \<and> frames w' = frames w @ [cs]
           \<and> (\<exists>k. raf_queue w' = [(raf_next w, k)])"
proof -
  from assms(1) obtain k i where wf: "wf w" and m: "mounted w" and c: "cleanup w = Some k"
    and p: "props (runs w ! k) = p" and t: "time (runs w ! k) = n"
    and k: "k < length (runs w)"
    and flags: "canvas (runs w ! k)" "container (runs w ! k)" "ctx (runs w ! k)"
    and q: "raf_queue w = [(i, k)]"
    by (auto simp add: running_def wf_def)
  let ?w0 = "w\<lparr> raf_queue := [] \<rparr>"
  have flags0: "canvas (runs ?w0 ! k)" "container (runs ?w0 ! k)" "ctx (runs ?w0 ! k)"
    using flags by simp_all
  have fr: "draw_frame (props (runs ?w0 ! k)) (time (runs ?w0 ! k))
              (clientWidth ?w0) (clientHeight ?w0) = Some cs"
    using assms(2) p t by simp
  let ?w' = "?w0\<lparr> canvas_width := clientWidth ?w0,
            canvas_height := clientHeight ?w0,
            frames := frames ?w0 @ [cs],
            raf_queue := raf_queue ?w0 @ [(raf_next ?w0, k)],
            raf_next := raf_next ?w0 + 1,
            runs := (runs ?w0)[k := (runs ?w0 ! k)\<lparr>
                 time := time (runs ?w0 ! k) + 1,
                 animationFrameId := Some (raf_next ?w0) \<rparr>] \<rparr>"
  have r: "render k ?w0 = Some ?w'"
    unfolding render_eq [OF flags0] fr by simp
  have s: "step AnimationFrame w = Some ?w'"
    using q r by simp
  have "running ?w' p (n + 1)"
    using m c p t k flags by (simp add: running_def wf_def)
  moreover have "same_surface w ?w'" by (simp add: same_surface_def)
  ultimately show ?thesis using s by simp
qed

lemma idle_AnimationFrame:
  assumes "raf_queue w = []"
  shows "step AnimationFrame w = Some w"
proof -
  have "w\<lparr> raf_queue := raf_queue w \<rparr> = w" by simp
  with assms show ?thesis by simp
qed

lemma idle_AnimationFrames:
  assumes "raf_queue w = []"
  shows "run (replicate n AnimationFrame) w = Some w"
  using idle_AnimationFrame [OF assms] by (induction n) simp_all

section \<open>The loop goes on\<close>

lemma render_continues:
  assumes "k < length (runs w)" and "canvas (runs w ! k)" and "container (runs w ! k)"
    and "ctx (runs w ! k)"
    and "draw_frame (props (runs w ! k)) (time (runs w ! k)) (clientWidth w) (clientHeight w)
           = Some cs"
  shows "\<exists>w'. render k w = Some w'
           \<and> raf_queue w' = raf_queue w @ [(raf_next w, k)]
           \<and> frames w' = frames w @ [cs]
           \<and> time (runs w' ! k) = time (runs w ! k) + 1"
  unfolding render_eq [OF assms(2-4)] assms(5) using assms(1) by simp

text \<open>
  C5. In a frame whose wavelength is +Infinity or NaN, on a surface that has a
  height or no width, every arc gets a finite centre and radius, the frame is completed and
  the next one is requested with the tick counter advanced. With a NaN wavelength no wave is
  drawn. With a wavelength of +Infinity and a positive height the incident pass draws one
  circle, of radius 2 * tick, as long as that is below the diagonal. A wavelength of
  -Infinity is left out.
\<close>

theorem C5_nonfinite_wavelength:
  assumes "wavelength (metrics pr) = PInf \<or> wavelength (metrics pr) = NaN"
    and "0 < h \<or> w = 0"
  shows "(\<exists>inc refl cs.
           drawIncidentWaves (make_view pr t w h) = Some inc
         \<and> drawReflectedWaves pr (make_view pr t w h) = Some refl
         \<and> draw_frame pr t w h = Some cs
         \<and> list_all finite_arc cs
         \<and> (wavelength (metrics pr) = NaN \<longrightarrow> inc = [] \<and> refl = [])
         \<and> (wavelength (metrics pr) = PInf \<and> 0 < h \<longrightarrow>
              inc = (if real t * 2 < sqrt (real w * real w + real h * real h)
                     then incidentWave (make_view pr t w h) (Fin (real t * 2)) else [])))
       \<and> (\<forall>k wd. k < length (runs wd) \<and> canvas (runs wd ! k) \<and> container (runs wd ! k)
                 \<and> ctx (runs wd ! k) \<and> props (runs wd ! k) = pr
                 \<and> clientWidth wd = w \<and> clientHeight wd = h \<longrightarrow>
              (\<exists>wd'. render k wd = Some wd'
                   \<and> raf_queue wd' = raf_queue wd @ [(raf_next wd, k)]
                   \<and> length (frames wd') = length (frames wd) + 1
                   \<and> time (runs wd' ! k) = time (runs wd ! k) + 1))"
proof (intro conjI allI impI)
  show "\<exists>inc refl cs.
           drawIncidentWaves (make_view pr t w h) = Some inc
         \<and> drawReflectedWaves pr (make_view pr t w h) = Some refl
         \<and> draw_frame pr t w h = Some cs
         \<and> list_all finite_arc cs
         \<and> (wavelength (metrics pr) = NaN \<longrightarrow> inc = [] \<and> refl = [])
         \<and> (wavelength (metrics pr) = PInf \<and> 0 < h \<longrightarrow>
              inc = (if real t * 2 < sqrt (real w * real w + real h * real h)
                     then incidentWave (make_view pr t w h) (Fin (real t * 2)) else []))"
    by (rule nonfinite_wavelength_frame [OF assms])
next
  fix k and wd :: world
  assume a: "k < length (runs wd) \<and> canvas (runs wd ! k) \<and> container (runs wd ! k)
                 \<and> ctx (runs wd ! k) \<and> props (runs wd ! k) = pr
                 \<and> clientWidth wd = w \<and> clientHeight wd = h"
  from assms have "frame_ends pr w h" by (auto simp add: frame_ends_def)
  from frame_ends_total [OF this, of "time (runs wd ! k)"] obtain cs where
    "draw_frame pr (time (runs wd ! k)) w h = Some cs" ..
  with a have "draw_frame (props (runs wd ! k)) (time (runs wd ! k))
                 (clientWidth wd) (clientHeight wd) = Some cs" by simp
  with render_continues [of k wd cs] a
  show "\<exists>wd'. render k wd = Some wd'
                   \<and> raf_queue wd' = raf_queue wd @ [(raf_next wd, k)]
                   \<and> length (frames wd') = length (frames wd) + 1
                   \<and> time (runs wd' ! k) = time (runs wd ! k) + 1"
    by fastforce
qed

theorem C5_nonfinite_wavelength_counterexample:
  "wavelength (metrics (app_props
      \<lparr> frequency = Fin 0, obstacleSize = Fin 1, temperature = Fin 20 \<rparr>)) = PInf
   \<and> \<not> isFinite (wavelength (metrics (app_props
      \<lparr> frequency = Fin 0, obstacleSize = Fin 1, temperature = Fin 20 \<rparr>)))
   \<and> drawIncidentWaves (make_view (app_props
        \<lparr> frequency = Fin 0, obstacleSize = Fin 1, temperature = Fin 20 \<rparr>) 5 80 60)
      = Some [StrokeStyle (Rgba 56 189 248 (Fin (7 / 8))), BeginPath,
              Arc (Fin 12) (Fin 30) (Fin 10) (Fin 0) (Fin (pi * 2)), Stroke]
   \<and> (\<exists>cs. draw_frame (app_props
        \<lparr> frequency = Fin 0, obstacleSize = Fin 1, temperature = Fin 20 \<rparr>) 5 80 60 = Some cs
          \<and> Arc (Fin 12) (Fin 30) (Fin 10) (Fin 0) (Fin (pi * 2)) \<in> set cs)"
proof -
  let ?P = "app_props \<lparr> frequency = Fin 0, obstacleSize = Fin 1, temperature = Fin 20 \<rparr>"
  have a: "wavelength (metrics ?P) = PInf"
    by (simp add: app_props_def calculateMetrics_fields calculateSpeedOfSound_def)
  then have b: "\<not> isFinite (wavelength (metrics ?P))"
    by (simp add: isFinite_def)
  have c: "drawIncidentWaves (make_view ?P 5 80 60)
      = Some [StrokeStyle (Rgba 56 189 248 (Fin (7 / 8))), BeginPath,
              Arc (Fin 12) (Fin 30) (Fin 10) (Fin 0) (Fin (pi * 2)), Stroke]"
    by (simp add: frame_simps sqrt_100)
  have d: "\<exists>cs. draw_frame ?P 5 80 60 = Some cs
          \<and> Arc (Fin 12) (Fin 30) (Fin 10) (Fin 0) (Fin (pi * 2)) \<in> set cs"
    by (simp add: frame_simps sqrt_100)
  from a b c d show ?thesis by blast
qed

theorem C5_nonfinite_wavelength_witness:
  "wavelength (metrics (app_props
      \<lparr> frequency = Fin 0, obstacleSize = Fin 1, temperature = Fin 20 \<rparr>)) = PInf
   \<and> (\<exists>cs. draw_frame (app_props
        \<lparr> frequency = Fin 0, obstacleSize = Fin 1, temperature = Fin 20 \<rparr>) 5 80 60 = Some cs
          \<and> list_all finite_arc cs)
   \<and> wavelength (metrics (app_props
      \<lparr> frequency = NaN, obstacleSize = Fin 1, temperature = Fin 20 \<rparr>)) = NaN
   \<and> drawIncidentWaves (make_view (app_props
        \<lparr> frequency = NaN, obstacleSize = Fin 1, temperature = Fin 20 \<rparr>) 5 80 60) = Some []
   \<and> drawReflectedWaves (app_props
        \<lparr> frequency = NaN, obstacleSize = Fin 1, temperature = Fin 20 \<rparr>)
        (make_view (app_props
        \<lparr> frequency = NaN, obstacleSize = Fin 1, temperature = Fin 20 \<rparr>) 5 80 60) = Some []"
proof -
  let ?P = "app_props \<lparr> frequency = Fin 0, obstacleSize = Fin 1, temperature = Fin 20 \<rparr>"
  let ?N = "app_props \<lparr> frequency = NaN, obstacleSize = Fin 1, temperature = Fin 20 \<rparr>"
  have p: "wavelength (metrics ?P) = PInf"
    by (simp add: app_props_def calculateMetrics_fields calculateSpeedOfSound_def)
  have n: "wavelength (metrics ?N) = NaN"
    by (simp add: app_props_def calculateMetrics_fields calculateSpeedOfSound_def)
  have size: "0 < (60::nat) \<or> (80::nat) = 0" by simp
  from C5_nonfinite_wavelength [of ?P 60 80 5] p size
  have 1: "\<exists>cs. draw_frame ?P 5 80 60 = Some cs \<and> list_all finite_arc cs" by blast
  from C5_nonfinite_wavelength [of ?N 60 80 5] n size
  have 2: "drawIncidentWaves (make_view ?N 5 80 60) = Some []
           \<and> drawReflectedWaves ?N (make_view ?N 5 80 60) = Some []" by fastforce
  from p n 1 2 show ?thesis by blast
qed

section \<open>The tick counter\<close>

lemma running_Resize:
  assumes "running w p n"
  shows "\<exists>w'. step (Resize a b) w = Some w' \<and> running w' p n
           \<and> clientWidth w' = a \<and> clientHeight w' = b \<and> frames w' = frames w"
  using assms by (auto simp add: running_def wf_def split: option.splits)

lemma step_Unmount_stop:
  assumes "wf w"
  shows "\<exists>w'. step Unmount w = Some w' \<and> wf w' \<and> \<not> mounted w' \<and> raf_queue w' = []
           \<and> cleanup w' = None \<and> frames w' = frames w \<and> same_surface w w'
           \<and> raf_next w' = raf_next w"
proof (cases "mounted w")
  case True
  note c = wf_run_cleanup [OF assms]
  have same: "same_surface w (run_cleanup w)" "raf_next (run_cleanup w) = raf_next w"
    by (simp_all add: same_surface_def run_cleanup_def cancelAnimationFrame_def
        split: option.splits)
  from True c same show ?thesis by (simp add: wf_def same_surface_def)
next
  case False
  with assms show ?thesis by (auto simp add: wf_def same_surface_def)
qed

text \<open>
  C3. The tick counter belongs to one run of the effect. While the loop runs,
  every change of a dependency (frequency, obstacle size or the metrics, and so a change of
  the temperature too) stops the loop and starts a new one whose counter begins at 0: the
  frame drawn at the change is the frame of tick 0, and the counter is 1 after it, whatever
  it was before. Unmounting and mounting again does the same. Between changes every frame
  advances the counter by exactly 1.
\<close>

theorem C3_tick_restarts_on_change:
  assumes "running wd p0 n"
    and "canvasRef wd \<and> containerRef wd \<and> context2d wd"
    and "frame_ends p (clientWidth wd) (clientHeight wd)"
  shows "(\<exists>wd' cs. step (DepsChange p) wd = Some wd'
            \<and> draw_frame p 0 (clientWidth wd) (clientHeight wd) = Some cs
            \<and> frames wd' = frames wd @ [cs]
            \<and> running wd' p 1 \<and> current_time wd' = Some 1)
       \<and> (\<exists>wd1 wd2 cs. step Unmount wd = Some wd1 \<and> step (Mount p) wd1 = Some wd2
            \<and> draw_frame p 0 (clientWidth wd) (clientHeight wd) = Some cs
            \<and> frames wd2 = frames wd @ [cs]
            \<and> running wd2 p 1 \<and> current_time wd2 = Some 1)
       \<and> (frame_ends p0 (clientWidth wd) (clientHeight wd) \<longrightarrow>
            (\<exists>wd' cs. step AnimationFrame wd = Some wd'
               \<and> draw_frame p0 n (clientWidth wd) (clientHeight wd) = Some cs
               \<and> frames wd' = frames wd @ [cs]
               \<and> running wd' p0 (n + 1) \<and> current_time wd' = Some (n + 1)))"
proof (intro conjI impI)
  from assms(1) have wf: "wf wd" and m: "mounted wd" by (simp_all add: running_def)
  from frame_ends_total [OF assms(3), of 0] obtain cs where
    cs: "draw_frame p 0 (clientWidth wd) (clientHeight wd) = Some cs" ..
  from step_DepsChange_start [OF wf m _ _ _ cs] assms(2)
  obtain wd' where "step (DepsChange p) wd = Some wd'" "running wd' p 1"
    "frames wd' = frames wd @ [cs]" by blast
  with cs running_time [of wd' p 1]
  show "\<exists>wd' cs. step (DepsChange p) wd = Some wd'
            \<and> draw_frame p 0 (clientWidth wd) (clientHeight wd) = Some cs
            \<and> frames wd' = frames wd @ [cs]
            \<and> running wd' p 1 \<and> current_time wd' = Some 1" by blast
  from step_Unmount_stop [OF wf] obtain wd1 where u: "step Unmount wd = Some wd1"
    and wf1: "wf wd1" and nm: "\<not> mounted wd1" and f1: "frames wd1 = frames wd"
    and s1: "same_surface wd wd1" by blast
  from s1 assms(2) cs have refs: "canvasRef wd1" "containerRef wd1" "context2d wd1"
    and cs1: "draw_frame p 0 (clientWidth wd1) (clientHeight wd1) = Some cs"
    by (simp_all add: same_surface_def)
  from step_Mount_start [OF wf1 nm refs cs1]
  obtain wd2 where "step (Mount p) wd1 = Some wd2" "running wd2 p 1"
    "frames wd2 = frames wd1 @ [cs]" by blast
  with u f1 cs running_time [of wd2 p 1]
  show "\<exists>wd1 wd2 cs. step Unmount wd = Some wd1 \<and> step (Mount p) wd1 = Some wd2
            \<and> draw_frame p 0 (clientWidth wd) (clientHeight wd) = Some cs
            \<and> frames wd2 = frames wd @ [cs]
            \<and> running wd2 p 1 \<and> current_time wd2 = Some 1" by auto
next
  assume le: "frame_ends p0 (clientWidth wd) (clientHeight wd)"
  from frame_ends_total [OF le, of n] obtain cs where
    cs: "draw_frame p0 n (clientWidth wd) (clientHeight wd) = Some cs" ..
  from step_AnimationFrame_running [OF assms(1) cs]
  obtain wd' where "step AnimationFrame wd = Some wd'" "running wd' p0 (n + 1)"
    "frames wd' = frames wd @ [cs]" by blast
  with cs running_time [of wd' p0 "n + 1"]
  show "\<exists>wd' cs. step AnimationFrame wd = Some wd'
               \<and> draw_frame p0 n (clientWidth wd) (clientHeight wd) = Some cs
               \<and> frames wd' = frames wd @ [cs]
               \<and> running wd' p0 (n + 1) \<and> current_time wd' = Some (n + 1)" by blast
qed

text \<open>A concrete session: mount at 340 Hz on a surface of 80 by 60, two more frames.\<close>

lemma frame_ends_app:
  assumes "frequency ps = Fin f" and "0 < f" and "temperature ps = Fin 20" and "0 < h"
  shows "frame_ends (app_props ps) w h"
  using assms
  by (simp add: frame_ends_def app_props_def calculateMetrics_fields calculateSpeedOfSound_def)

lemma session_340:
  "\<exists>w1. run [Mount (app_props \<lparr> frequency = Fin 340, obstacleSize = Fin 1, temperature = Fin 20 \<rparr>),
              AnimationFrame, AnimationFrame] (initial True True True 80 60) = Some w1
        \<and> running w1 (app_props \<lparr> frequency = Fin 340, obstacleSize = Fin 1, temperature = Fin 20 \<rparr>) 3
        \<and> same_surface (initial True True True 80 60) w1
        \<and> length (frames w1) = 3"
proof -
  let ?P = "app_props \<lparr> frequency = Fin 340, obstacleSize = Fin 1, temperature = Fin 20 \<rparr>"
  let ?W = "initial True True True 80 60"
  have le: "frame_ends ?P 80 60" by (rule frame_ends_app [of _ 340]) simp_all
  have W: "wf ?W" "\<not> mounted ?W" "canvasRef ?W" "containerRef ?W" "context2d ?W"
    by (simp_all add: wf_initial) (simp_all add: initial_def)
  have W': "clientWidth ?W = 80" "clientHeight ?W = 60" "frames ?W = []"
    by (simp_all add: initial_def)
  from frame_ends_total [OF le, of 0] W' obtain c0 where
    "draw_frame ?P 0 (clientWidth ?W) (clientHeight ?W) = Some c0" by auto
  from step_Mount_start [OF W this]
  obtain wa where a: "step (Mount ?P) ?W = Some wa" "running wa ?P 1" "same_surface ?W wa"
    "frames wa = frames ?W @ [c0]" by blast
  from a(3) W' have sa: "clientWidth wa = 80" "clientHeight wa = 60"
    by (simp_all add: same_surface_def)
  from frame_ends_total [OF le, of 1] sa obtain c1 where
    "draw_frame ?P 1 (clientWidth wa) (clientHeight wa) = Some c1" by auto
  from step_AnimationFrame_running [OF a(2) this]
  obtain wb where b: "step AnimationFrame wa = Some wb" "running wb ?P (1 + 1)"
    "same_surface wa wb" "frames wb = frames wa @ [c1]" by blast
  from b(3) sa have sb: "clientWidth wb = 80" "clientHeight wb = 60"
    by (simp_all add: same_surface_def)
  from frame_ends_total [OF le, of "1 + 1"] sb obtain c2 where
    "draw_frame ?P (1 + 1) (clientWidth wb) (clientHeight wb) = Some c2" by auto
  from step_AnimationFrame_running [OF b(2) this]
  obtain wc where c: "step AnimationFrame wb = Some wc" "running wc ?P (1 + 1 + 1)"
    "same_surface wb wc" "frames wc = frames wb @ [c2]" by blast
  have r: "run [Mount ?P, AnimationFrame, AnimationFrame] ?W = Some wc"
    using a(1) b(1) c(1) by simp
  have s: "same_surface ?W wc"
    using a(3) b(3) c(3) by (simp add: same_surface_def)
  have "(1::nat) + 1 + 1 = 3" by simp
  with c(2) have n: "running wc ?P 3" by metis
  have f: "length (frames wc) = 3" using a(4) b(4) c(4) W'(3) by simp
  from r s n f show ?thesis by blast
qed

theorem C3_tick_restarts_on_change_counterexample:
  "\<exists>w1 w2.
      run [Mount (app_props \<lparr> frequency = Fin 340, obstacleSize = Fin 1, temperature = Fin 20 \<rparr>),
           AnimationFrame, AnimationFrame] (initial True True True 80 60) = Some w1
    \<and> current_time w1 = Some 3
    \<and> canvasRef w1 \<and> containerRef w1 \<and> context2d w1
    \<and> step (DepsChange (app_props
          \<lparr> frequency = Fin 350, obstacleSize = Fin 1, temperature = Fin 20 \<rparr>)) w1 = Some w2
    \<and> current_time w2 = Some 1
    \<and> canvasRef w2 \<and> containerRef w2 \<and> context2d w2"
proof -
  let ?P = "app_props \<lparr> frequency = Fin 340, obstacleSize = Fin 1, temperature = Fin 20 \<rparr>"
  let ?Q = "app_props \<lparr> frequency = Fin 350, obstacleSize = Fin 1, temperature = Fin 20 \<rparr>"
  let ?W = "initial True True True 80 60"
  from session_340 obtain w1 where
    r: "run [Mount ?P, AnimationFrame, AnimationFrame] ?W = Some w1"
    and run1: "running w1 ?P 3" and s1: "same_surface ?W w1" by blast
  from s1 have refs: "canvasRef w1" "containerRef w1" "context2d w1"
    and size: "clientWidth w1 = 80" "clientHeight w1 = 60"
    by (simp_all add: same_surface_def initial_def)
  have le: "frame_ends ?Q 80 60" by (rule frame_ends_app [of _ 350]) simp_all
  from frame_ends_total [OF le, of 0] size obtain cs where
    cs: "draw_frame ?Q 0 (clientWidth w1) (clientHeight w1) = Some cs" by auto
  from run1 have "wf w1" "mounted w1" by (simp_all add: running_def)
  from step_DepsChange_start [OF this refs cs]
  obtain w2 where d: "step (DepsChange ?Q) w1 = Some w2" "running w2 ?Q 1" "same_surface w1 w2"
    by blast
  from d(3) refs have refs2: "canvasRef w2" "containerRef w2" "context2d w2"
    by (simp_all add: same_surface_def)
  from r running_time [OF run1] refs d(1) running_time [OF d(2)] refs2
  show ?thesis by blast
qed

theorem C3_tick_restarts_on_change_witness:
  "\<exists>w1 w2.
      run [Mount (app_props \<lparr> frequency = Fin 340, obstacleSize = Fin 1, temperature = Fin 20 \<rparr>),
           AnimationFrame, AnimationFrame] (initial True True True 80 60) = Some w1
    \<and> running w1 (app_props \<lparr> frequency = Fin 340, obstacleSize = Fin 1, temperature = Fin 20 \<rparr>) 3
    \<and> frame_ends (app_props \<lparr> frequency = Fin 350, obstacleSize = Fin 1, temperature = Fin 20 \<rparr>)
         (clientWidth w1) (clientHeight w1)
    \<and> step (DepsChange (app_props
          \<lparr> frequency = Fin 350, obstacleSize = Fin 1, temperature = Fin 20 \<rparr>)) w1 = Some w2
    \<and> length (frames w2) = 4
    \<and> current_time w2 = Some 1"
proof -
  let ?P = "app_props \<lparr> frequency = Fin 340, obstacleSize = Fin 1, temperature = Fin 20 \<rparr>"
  let ?Q = "app_props \<lparr> frequency = Fin 350, obstacleSize = Fin 1, temperature = Fin 20 \<rparr>"
  let ?W = "initial True True True 80 60"
  from session_340 obtain w1 where
    r: "run [Mount ?P, AnimationFrame, AnimationFrame] ?W = Some w1"
    and run1: "running w1 ?P 3" and s1: "same_surface ?W w1"
    and f1: "length (frames w1) = 3" by blast
  from s1 have refs: "canvasRef w1 \<and> containerRef w1 \<and> context2d w1"
    and size: "clientWidth w1 = 80" "clientHeight w1 = 60"
    by (simp_all add: same_surface_def initial_def)
  have le: "frame_ends ?Q (clientWidth w1) (clientHeight w1)"
    unfolding size by (rule frame_ends_app [of _ 350]) simp_all
  from C3_tick_restarts_on_change [OF run1 refs le]
  obtain w2 cs where "step (DepsChange ?Q) w1 = Some w2" "frames w2 = frames w1 @ [cs]"
    "current_time w2 = Some 1" by blast
  then have "step (DepsChange ?Q) w1 = Some w2" "length (frames w2) = 4"
    "current_time w2 = Some 1" using f1 by simp_all
  with r run1 le show ?thesis by blast
qed

section \<open>Stopping the loop\<close>

lemma quiet_step:
  assumes "raf_queue w = []" and "browser_event e"
  shows "\<exists>w'. step e w = Some w' \<and> raf_queue w' = [] \<and> frames w' = frames w"
  using assms by (cases e) simp_all

lemma quiet_run:
  assumes "raf_queue w = []" and "list_all browser_event es"
  shows "\<exists>w'. run es w = Some w' \<and> raf_queue w' = [] \<and> frames w' = frames w"
  using assms
proof (induction es arbitrary: w)
  case Nil
  then show ?case by simp
next
  case (Cons e es)
  from Cons.prems have e: "browser_event e" and rest: "list_all browser_event es" by simp_all
  from quiet_step [OF Cons.prems(1) e] obtain w1 where
    s: "step e w = Some w1" and q: "raf_queue w1 = []" and f: "frames w1 = frames w" by blast
  from Cons.IH [OF q rest] s f show ?case by auto
qed

lemma useEffect_body_frames:
  assumes "useEffect_body p w = Some w'"
  shows "length (frames w') \<le> length (frames w) + 1"
proof (cases "canvasRef w \<and> containerRef w \<and> context2d w")
  case False
  with assms show ?thesis by (auto simp add: useEffect_body_def split: if_splits)
next
  case True
  let ?r = "\<lparr> canvas = canvasRef w, container = containerRef w, ctx = context2d w,
               props = p, time = 0, animationFrameId = None \<rparr>"
  let ?w1 = "w\<lparr> runs := runs w @ [?r] \<rparr>"
  have flags: "canvas (runs ?w1 ! length (runs w))" "container (runs ?w1 ! length (runs w))"
    "ctx (runs ?w1 ! length (runs w))"
    using True by simp_all
  from assms True obtain w2 where r: "render (length (runs w)) ?w1 = Some w2"
    and w': "w' = w2\<lparr> cleanup := Some (length (runs w)) \<rparr>"
    by (auto simp add: useEffect_body_def Let_def split: option.splits)
  from r have "length (frames w2) = length (frames w) + 1"
    unfolding render_eq [OF flags] by (auto split: option.splits)
  with w' show ?thesis by simp
qed

lemma start_stop:
  assumes "run [Mount p, Unmount] (initial cv ct cx a b) = Some w'"
  shows "length (frames w') \<le> 1 \<and> raf_queue w' = []"
proof -
  let ?W = "initial cv ct cx a b"
  from assms obtain w1 where m: "step (Mount p) ?W = Some w1" and u: "step Unmount w1 = Some w'"
    by (auto split: option.splits)
  have nm: "\<not> mounted ?W" and f0: "frames ?W = []" by (simp_all add: initial_def)
  from m nm have "useEffect_body p (?W\<lparr> mounted := True \<rparr>) = Some w1" by simp
  from useEffect_body_frames [OF this] f0 have f1: "length (frames w1) \<le> 1" by simp
  from wf_step [OF wf_initial m] have "wf w1" .
  from step_Unmount_stop [OF this] u f1 show ?thesis by auto
qed

lemma start_stop_returns:
  assumes "frame_ends p a b"
  shows "\<exists>w'. run [Mount p, Unmount] (initial cv ct cx a b) = Some w'"
proof -
  let ?W = "initial cv ct cx a b"
  have W: "wf ?W" "\<not> mounted ?W" by (simp_all add: wf_initial) (simp add: initial_def)
  have "\<exists>w1. step (Mount p) ?W = Some w1"
  proof (cases "cv \<and> ct \<and> cx")
    case True
    then have refs: "canvasRef ?W" "containerRef ?W" "context2d ?W"
      by (simp_all add: initial_def)
    from frame_ends_total [OF assms, of 0] obtain cs where
      "draw_frame p 0 (clientWidth ?W) (clientHeight ?W) = Some cs"
      by (auto simp add: initial_def)
    from step_Mount_start [OF W refs this] show ?thesis by blast
  next
    case False
    then have "\<not> (canvasRef (?W\<lparr> mounted := True \<rparr>) \<and> containerRef (?W\<lparr> mounted := True \<rparr>)
                  \<and> context2d (?W\<lparr> mounted := True \<rparr>))"
      by (simp add: initial_def)
    from useEffect_body_missing [OF this, of p] W(2) show ?thesis by simp
  qed
  then obtain w1 where m: "step (Mount p) ?W = Some w1" ..
  from step_Unmount_stop [OF wf_step [OF W(1) m]] obtain w' where "step Unmount w1 = Some w'"
    by blast
  with m show ?thesis by simp
qed

text \<open>
  C4. In every state the page can reach, the cleanup leaves no callback with the browser and
  draws nothing. After the unmount, whatever happens short of a new mount, no frame is drawn
  and none is requested. After a change of dependency the browser holds at most one
  callback, and it is the new run's. Mounting and unmounting at once returns whenever the
  loops of the frame end, and then at most one frame has been drawn and none is pending.
\<close>

theorem C4_no_frame_after_stop:
  assumes "run es (initial cv ct cx a b) = Some wd"
  shows "raf_queue (run_cleanup wd) = [] \<and> frames (run_cleanup wd) = frames wd
       \<and> (\<exists>wd1. step Unmount wd = Some wd1 \<and> raf_queue wd1 = [] \<and> frames wd1 = frames wd
            \<and> (\<forall>es'. list_all (\<lambda>e. \<not> is_Mount e) es' \<longrightarrow>
                 (\<exists>wd2. run es' wd1 = Some wd2 \<and> frames wd2 = frames wd1
                       \<and> raf_queue wd2 = [])))
       \<and> (\<forall>p wd'. step (DepsChange p) wd = Some wd' \<longrightarrow>
            length (raf_queue wd') \<le> 1
            \<and> (\<forall>e \<in> set (raf_queue wd'). cleanup wd' = Some (snd e)))
       \<and> (\<forall>p wd'. run [Mount p, Unmount] (initial cv ct cx a b) = Some wd' \<longrightarrow>
            length (frames wd') \<le> 1 \<and> raf_queue wd' = [])
       \<and> (\<forall>p. frame_ends p a b \<longrightarrow>
            (\<exists>wd'. run [Mount p, Unmount] (initial cv ct cx a b) = Some wd'))"
proof -
  from wf_run [OF wf_initial assms] have wf: "wf wd" .
  note c = wf_run_cleanup [OF wf]
  from step_Unmount_stop [OF wf] obtain wd1 where u: "step Unmount wd = Some wd1"
    and nm: "\<not> mounted wd1" and q: "raf_queue wd1 = []" and f: "frames wd1 = frames wd"
    by blast
  have after: "\<forall>es'. list_all (\<lambda>e. \<not> is_Mount e) es' \<longrightarrow>
                 (\<exists>wd2. run es' wd1 = Some wd2 \<and> frames wd2 = frames wd1
                       \<and> raf_queue wd2 = [])"
    using idle_run [OF nm q] by blast
  have change: "\<forall>p wd'. step (DepsChange p) wd = Some wd' \<longrightarrow>
            length (raf_queue wd') \<le> 1
            \<and> (\<forall>e \<in> set (raf_queue wd'). cleanup wd' = Some (snd e))"
  proof (intro allI impI)
    fix p wd'
    assume "step (DepsChange p) wd = Some wd'"
    from wf_step [OF wf this] show "length (raf_queue wd') \<le> 1
            \<and> (\<forall>e \<in> set (raf_queue wd'). cleanup wd' = Some (snd e))"
      by (auto simp add: wf_def split: option.splits)
  qed
  from c(1,3) u q f after change start_stop start_stop_returns show ?thesis by blast
qed

theorem C4_no_frame_after_stop_witness:
  "\<exists>w1 w2 w3.
      run [Mount (app_props \<lparr> frequency = Fin 340, obstacleSize = Fin 1, temperature = Fin 20 \<rparr>),
           AnimationFrame, AnimationFrame] (initial True True True 80 60) = Some w1
    \<and> length (frames w1) = 3
    \<and> step Unmount w1 = Some w2
    \<and> run [AnimationFrame, Resize 100 100, AnimationFrame] w2 = Some w3
    \<and> length (frames w3) = 3
    \<and> raf_queue w3 = []"
proof -
  let ?P = "app_props \<lparr> frequency = Fin 340, obstacleSize = Fin 1, temperature = Fin 20 \<rparr>"
  from session_340 obtain w1 where
    r: "run [Mount ?P, AnimationFrame, AnimationFrame] (initial True True True 80 60) = Some w1"
    and f1: "length (frames w1) = 3" by blast
  have es: "list_all (\<lambda>e. \<not> is_Mount e) [AnimationFrame, Resize 100 100, AnimationFrame]"
    by simp
  from C4_no_frame_after_stop [OF r] es
  obtain w2 w3 where "step Unmount w1 = Some w2" "frames w2 = frames w1"
    "run [AnimationFrame, Resize 100 100, AnimationFrame] w2 = Some w3"
    "frames w3 = frames w2" "raf_queue w3 = []" by blast
  with r f1 show ?thesis by auto
qed

section \<open>A surface that is missing or empty\<close>

lemma step_Mount_missing:
  assumes "\<not> mounted w" and "\<not> (canvasRef w \<and> containerRef w \<and> context2d w)"
  shows "step (Mount p) w = Some (w\<lparr> mounted := True, cleanup := None \<rparr>)"
proof -
  from assms(2) have "\<not> (canvasRef (w\<lparr> mounted := True \<rparr>) \<and> containerRef (w\<lparr> mounted := True \<rparr>)
                  \<and> context2d (w\<lparr> mounted := True \<rparr>))" by simp
  from useEffect_body_missing [OF this, of p] assms(1) show ?thesis by simp
qed

lemma step_Mount_hangs:
  assumes "\<not> mounted w" and "canvasRef w" and "containerRef w" and "context2d w"
    and "clientHeight w = 0" and "0 < clientWidth w"
  shows "step (Mount p) w = None"
proof -
  let ?w0 = "w\<lparr> mounted := True \<rparr>"
  let ?r = "\<lparr> canvas = canvasRef ?w0, container = containerRef ?w0, ctx = context2d ?w0,
               props = p, time = 0, animationFrameId = None \<rparr>"
  let ?w1 = "?w0\<lparr> runs := runs ?w0 @ [?r] \<rparr>"
  have flags: "canvas (runs ?w1 ! length (runs ?w0))" "container (runs ?w1 ! length (runs ?w0))"
    "ctx (runs ?w1 ! length (runs ?w0))"
    using assms(2-4) by simp_all
  have "draw_frame p 0 (clientWidth w) (clientHeight w) = None"
    using draw_frame_hangs [of "clientHeight w" "clientWidth w" p 0] assms(5,6) by simp
  then have "render (length (runs ?w0)) ?w1 = None"
    unfolding render_eq [OF flags] by simp
  then show ?thesis using assms(1-4) by (simp add: useEffect_body_def Let_def)
qed

text \<open>
  C6. When a ref or the 2D context is missing as the effect runs, the effect
  returns without drawing and without starting the loop, and nothing is drawn afterwards,
  also once the surface is there, until the effect runs again. On a surface of width zero
  (and a wavelength that is not negative) a running loop still makes the calls of its frame,
  advances the tick counter and requests the next frame, and it goes on drawing once the
  surface has a size. A surface of height zero and positive width is left out.
\<close>

theorem C6_surface_missing_or_empty:
  "(wf wd \<and> \<not> mounted wd \<and> \<not> (canvasRef wd \<and> containerRef wd \<and> context2d wd) \<longrightarrow>
      (\<exists>wd'. step (Mount p) wd = Some wd' \<and> frames wd' = frames wd \<and> raf_queue wd' = []
           \<and> cleanup wd' = None
           \<and> (\<forall>es. list_all browser_event es \<longrightarrow>
                 (\<exists>wd2. run es wd' = Some wd2 \<and> frames wd2 = frames wd
                       \<and> raf_queue wd2 = []))))
   \<and> (running wd p n \<and> clientWidth wd = 0 \<and> \<not> js_lt (wavelength (metrics p)) (Fin 0) \<longrightarrow>
      (\<exists>wd' cs. step AnimationFrame wd = Some wd'
           \<and> draw_frame p n 0 (clientHeight wd) = Some cs
           \<and> frames wd' = frames wd @ [cs] \<and> running wd' p (n + 1) \<and> raf_queue wd' \<noteq> []
           \<and> (\<forall>a b. 0 < b \<longrightarrow>
                 (\<exists>wd1 wd2 cs'. step (Resize a b) wd' = Some wd1
                    \<and> step AnimationFrame wd1 = Some wd2
                    \<and> draw_frame p (n + 1) a b = Some cs'
                    \<and> frames wd2 = frames wd' @ [cs']))))"
proof (intro conjI impI)
  assume a: "wf wd \<and> \<not> mounted wd \<and> \<not> (canvasRef wd \<and> containerRef wd \<and> context2d wd)"
  let ?w' = "wd\<lparr> mounted := True, cleanup := None \<rparr>"
  from a have q: "raf_queue wd = []" by (auto simp add: wf_def split: option.splits)
  from a step_Mount_missing [of wd p] have s: "step (Mount p) wd = Some ?w'" by blast
  have "\<forall>es. list_all browser_event es \<longrightarrow>
          (\<exists>wd2. run es ?w' = Some wd2 \<and> frames wd2 = frames wd \<and> raf_queue wd2 = [])"
    using quiet_run [of ?w'] q by auto
  with s q show "\<exists>wd'. step (Mount p) wd = Some wd' \<and> frames wd' = frames wd
           \<and> raf_queue wd' = [] \<and> cleanup wd' = None
           \<and> (\<forall>es. list_all browser_event es \<longrightarrow>
                 (\<exists>wd2. run es wd' = Some wd2 \<and> frames wd2 = frames wd
                       \<and> raf_queue wd2 = []))"
    by auto
next
  assume a: "running wd p n \<and> clientWidth wd = 0 \<and> \<not> js_lt (wavelength (metrics p)) (Fin 0)"
  then have run: "running wd p n" and w0: "clientWidth wd = 0"
    and lam: "\<not> js_lt (wavelength (metrics p)) (Fin 0)" by simp_all
  from lam have "frame_ends p 0 (clientHeight wd)" by (simp add: frame_ends_def)
  from frame_ends_total [OF this, of n] obtain cs where
    cs: "draw_frame p n 0 (clientHeight wd) = Some cs" ..
  with w0 have "draw_frame p n (clientWidth wd) (clientHeight wd) = Some cs" by simp
  from step_AnimationFrame_running [OF run this]
  obtain wd' where s: "step AnimationFrame wd = Some wd'" and run': "running wd' p (n + 1)"
    and f: "frames wd' = frames wd @ [cs]" and q: "raf_queue wd' \<noteq> []" by auto
  have later: "\<forall>a b. 0 < b \<longrightarrow>
                 (\<exists>wd1 wd2 cs'. step (Resize a b) wd' = Some wd1
                    \<and> step AnimationFrame wd1 = Some wd2
                    \<and> draw_frame p (n + 1) a b = Some cs'
                    \<and> frames wd2 = frames wd' @ [cs'])"
  proof (intro allI impI)
    fix a b :: nat
    assume b: "0 < b"
    from running_Resize [OF run', of a b] obtain wd1 where
      r: "step (Resize a b) wd' = Some wd1" and run1: "running wd1 p (n + 1)"
      and size: "clientWidth wd1 = a" "clientHeight wd1 = b" and f1: "frames wd1 = frames wd'"
      by blast
    from lam b have "frame_ends p a b" by (simp add: frame_ends_def)
    from frame_ends_total [OF this, of "n + 1"] obtain cs' where
      cs': "draw_frame p (n + 1) a b = Some cs'" ..
    with size have "draw_frame p (n + 1) (clientWidth wd1) (clientHeight wd1) = Some cs'"
      by simp
    from step_AnimationFrame_running [OF run1 this] obtain wd2 where
      "step AnimationFrame wd1 = Some wd2" "frames wd2 = frames wd1 @ [cs']" by blast
    with r cs' f1 show "\<exists>wd1 wd2 cs'. step (Resize a b) wd' = Some wd1
                    \<and> step AnimationFrame wd1 = Some wd2
                    \<and> draw_frame p (n + 1) a b = Some cs'
                    \<and> frames wd2 = frames wd' @ [cs']" by auto
  qed
  from s cs f run' q later
  show "\<exists>wd' cs. step AnimationFrame wd = Some wd'
           \<and> draw_frame p n 0 (clientHeight wd) = Some cs
           \<and> frames wd' = frames wd @ [cs] \<and> running wd' p (n + 1) \<and> raf_queue wd' \<noteq> []
           \<and> (\<forall>a b. 0 < b \<longrightarrow>
                 (\<exists>wd1 wd2 cs'. step (Resize a b) wd' = Some wd1
                    \<and> step AnimationFrame wd1 = Some wd2
                    \<and> draw_frame p (n + 1) a b = Some cs'
                    \<and> frames wd2 = frames wd' @ [cs']))"
    by blast
qed

theorem C6_surface_missing_or_empty_counterexample:
  "(\<exists>wd. run [Mount (app_props \<lparr> frequency = Fin 340, obstacleSize = Fin 1, temperature = Fin 20 \<rparr>),
              SetRefs True True True, AnimationFrame, AnimationFrame]
             (initial False True True 80 60) = Some wd
        \<and> canvasRef wd \<and> containerRef wd \<and> context2d wd
        \<and> frames wd = [] \<and> raf_queue wd = [])
   \<and> step (Mount (app_props \<lparr> frequency = Fin 340, obstacleSize = Fin 1, temperature = Fin 20 \<rparr>))
        (initial True True True 80 0) = None"
proof -
  let ?P = "app_props \<lparr> frequency = Fin 340, obstacleSize = Fin 1, temperature = Fin 20 \<rparr>"
  have "\<exists>wd. run [Mount ?P, SetRefs True True True, AnimationFrame, AnimationFrame]
             (initial False True True 80 60) = Some wd
        \<and> canvasRef wd \<and> containerRef wd \<and> context2d wd
        \<and> frames wd = [] \<and> raf_queue wd = []"
    by (simp add: initial_def useEffect_body_def)
  moreover have "step (Mount ?P) (initial True True True 80 0) = None"
    by (rule step_Mount_hangs) (simp_all add: initial_def)
  ultimately show ?thesis by blast
qed

theorem C6_surface_missing_or_empty_witness:
  "wf (initial False True True 80 60) \<and> \<not> mounted (initial False True True 80 60)
   \<and> \<not> canvasRef (initial False True True 80 60)
   \<and> (\<exists>wd'. step (Mount (app_props
                \<lparr> frequency = Fin 340, obstacleSize = Fin 1, temperature = Fin 20 \<rparr>))
               (initial False True True 80 60) = Some wd'
          \<and> frames wd' = [] \<and> raf_queue wd' = [])
   \<and> (\<exists>wd wd'. step (Mount (app_props
                \<lparr> frequency = Fin 340, obstacleSize = Fin 1, temperature = Fin 20 \<rparr>))
               (initial True True True 0 60) = Some wd
          \<and> running wd (app_props
                \<lparr> frequency = Fin 340, obstacleSize = Fin 1, temperature = Fin 20 \<rparr>) 1
          \<and> clientWidth wd = 0
          \<and> step AnimationFrame wd = Some wd'
          \<and> length (frames wd') = 2
          \<and> raf_queue wd' \<noteq> [])"
proof -
  let ?P = "app_props \<lparr> frequency = Fin 340, obstacleSize = Fin 1, temperature = Fin 20 \<rparr>"
  let ?M = "initial False True True 80 60"
  let ?Z = "initial True True True 0 60"
  have M: "wf ?M" "\<not> mounted ?M" "\<not> canvasRef ?M" "frames ?M = []"
    by (simp_all add: wf_initial) (simp_all add: initial_def)
  then have "wf ?M \<and> \<not> mounted ?M \<and> \<not> (canvasRef ?M \<and> containerRef ?M \<and> context2d ?M)"
    by simp
  with C6_surface_missing_or_empty [of ?M ?P]
  have "\<exists>wd'. step (Mount ?P) ?M = Some wd' \<and> frames wd' = frames ?M \<and> raf_queue wd' = []"
    by blast
  then have 1: "\<exists>wd'. step (Mount ?P) ?M = Some wd' \<and> frames wd' = [] \<and> raf_queue wd' = []"
    unfolding M(4) .
  have le: "frame_ends ?P 0 60" by (rule frame_ends_app [of _ 340]) simp_all
  then have lam: "\<not> js_lt (wavelength (metrics ?P)) (Fin 0)" by (simp add: frame_ends_def)
  have Z: "wf ?Z" "\<not> mounted ?Z" "canvasRef ?Z" "containerRef ?Z" "context2d ?Z"
    by (simp_all add: wf_initial) (simp_all add: initial_def)
  have Z': "clientWidth ?Z = 0" "clientHeight ?Z = 60" "frames ?Z = []"
    by (simp_all add: initial_def)
  from frame_ends_total [OF le, of 0] Z' obtain c0 where
    "draw_frame ?P 0 (clientWidth ?Z) (clientHeight ?Z) = Some c0" by auto
  from step_Mount_start [OF Z this]
  obtain wd where m: "step (Mount ?P) ?Z = Some wd" and run: "running wd ?P 1"
    and s: "same_surface ?Z wd" and f: "frames wd = frames ?Z @ [c0]" by blast
  from s Z' have w0: "clientWidth wd = 0" by (simp add: same_surface_def)
  from C6_surface_missing_or_empty [of wd ?P 1] run w0 lam
  obtain wd' cs where "step AnimationFrame wd = Some wd'" "frames wd' = frames wd @ [cs]"
    "raf_queue wd' \<noteq> []" by blast
  with f Z'(3) have "step AnimationFrame wd = Some wd'" "length (frames wd') = 2"
    "raf_queue wd' \<noteq> []" by simp_all
  with m run w0 have 2: "\<exists>wd wd'. step (Mount ?P) ?Z = Some wd \<and> running wd ?P 1
          \<and> clientWidth wd = 0 \<and> step AnimationFrame wd = Some wd'
          \<and> length (frames wd') = 2 \<and> raf_queue wd' \<noteq> []" by blast
  from M(1-3) 1 2 show ?thesis by blast
qed

end
